theory Spec2Isabelle
  imports Complex_Main "HOL-Library.Char_ord" "HOL-Library.List_Lexorder"
    "HOL-Library.Product_Lexorder"
begin

section \<open>Data model\<close>

text \<open>
  The pipeline works on pandas data frames.  A data frame is modelled as the list of its
  rows, in row order, and a row as a record of its columns.

  A float64 cell is a \<open>real option\<close>: \<open>None\<close> is NaN (the missing value), \<open>Some x\<close> a
  number.  Arithmetic is exact, so binary rounding error is outside the model; NaN
  propagation, NaN-skipping reductions and NaN comparisons (always false) are inside it.
  A text cell is a \<open>string option\<close>: \<open>None\<close> is the NaN that \<open>read_csv\<close> gives for an
  empty cell.
\<close>

record timestamp =
  d_year :: int
  d_month :: nat
  d_day :: nat

text \<open>
  A row as \<open>pd.read_csv\<close> returns it.  \<open>Quantity\<close>, \<open>Price\<close> and \<open>Revenue\<close> are numeric
  columns, so a quantity may be missing and may have a fraction.  The six text columns
  may each have missing cells.  A cell of \<open>OrderDate\<close> holds a text, which
  \<open>pd.to_datetime\<close> either parses to a timestamp (taken at the granularity of a day) or
  rejects; the data source writes a date in every row, and a missing date is not
  modelled.
\<close>

datatype date_cell = DateText timestamp | BadDateText

record raw_row =
  raw_OrderID :: "string option"
  raw_ProductID :: "string option"
  raw_ProductName :: "string option"
  raw_Category :: "string option"
  raw_Quantity :: "real option"
  raw_Price :: "real option"
  raw_Revenue :: "real option"
  raw_OrderDate :: date_cell
  raw_CustomerID :: "string option"
  raw_Region :: "string option"

text \<open>
  A row after the type conversions of step 3, and a row of the cleaned table, which the
  aggregation stage reads.  The text columns hold text and the quantity is an integer;
  \<open>Quantity\<close> and \<open>Region\<close> keep the option type so that the absence of a missing
  value is a statement about the table.
\<close>

record typed_row =
  OrderID :: string
  ProductID :: string
  ProductName :: string
  Category :: string
  Quantity :: "int option"
  Price :: "real option"
  Revenue :: "real option"
  OrderDate :: timestamp
  CustomerID :: string
  Region :: "string option"

record clean_row = typed_row +
  TotalSales :: "real option"
  ProfitMargin :: "real option"
  Profit :: "real option"
  Year :: int
  Month :: nat
  Quarter :: nat
  MonthName :: string
  YearMonth :: string
  DaysSinceOrder :: int

text \<open>The Python exceptions that the modelled statements can raise.  The errors of
  \<open>pd.to_datetime\<close> on a text it cannot parse and of \<open>astype(int)\<close> on NaN are
  subclasses of \<open>ValueError\<close>.\<close>

datatype error = KeyError | ValueError

subsection \<open>NaN-aware arithmetic and reductions\<close>

definition fadd :: "real option \<Rightarrow> real option \<Rightarrow> real option" where
  "fadd a b = (case (a, b) of (Some x, Some y) \<Rightarrow> Some (x + y) | _ \<Rightarrow> None)"

definition fsub :: "real option \<Rightarrow> real option \<Rightarrow> real option" where
  "fsub a b = (case (a, b) of (Some x, Some y) \<Rightarrow> Some (x - y) | _ \<Rightarrow> None)"

definition fmul :: "real option \<Rightarrow> real option \<Rightarrow> real option" where
  "fmul a b = (case (a, b) of (Some x, Some y) \<Rightarrow> Some (x * y) | _ \<Rightarrow> None)"

definition fgt :: "real option \<Rightarrow> real option \<Rightarrow> bool" where
  "fgt a b = (case (a, b) of (Some x, Some y) \<Rightarrow> x > y | _ \<Rightarrow> False)"

definition flt :: "real option \<Rightarrow> real option \<Rightarrow> bool" where
  "flt a b = (case (a, b) of (Some x, Some y) \<Rightarrow> x < y | _ \<Rightarrow> False)"

text \<open>\<open>dropna\<close>: the values of a column that are present.\<close>

fun dropna :: "'a option list \<Rightarrow> 'a list" where
  "dropna [] = []"
| "dropna (None # xs) = dropna xs"
| "dropna (Some x # xs) = x # dropna xs"

definition isnull_any :: "'a option list \<Rightarrow> bool" where
  "isnull_any xs = list_ex (\<lambda>x. x = None) xs"

text \<open>\<open>Series.sum\<close>, \<open>mean\<close>, \<open>median\<close> and \<open>std\<close> (one delta degree of freedom) skip NaN.
  The sum of no value is 0; the mean and the median of no value are NaN; the standard
  deviation of fewer than two values is NaN.\<close>

definition nansum :: "real option list \<Rightarrow> real" where
  "nansum xs = sum_list (dropna xs)"

definition nanmean :: "real option list \<Rightarrow> real option" where
  "nanmean xs =
     (let vs = dropna xs
      in if vs = [] then None else Some (sum_list vs / real (length vs)))"

definition nanmedian :: "real option list \<Rightarrow> real option" where
  "nanmedian xs =
     (let s = sort (dropna xs); n = length s
      in if n = 0 then None
         else if odd n then Some (s ! (n div 2))
         else Some ((s ! (n div 2 - 1) + s ! (n div 2)) / 2))"

definition nanstd :: "real option list \<Rightarrow> real option" where
  "nanstd xs =
     (let vs = dropna xs; n = length vs
      in if n < 2 then None
         else let m = sum_list vs / real n
              in Some (sqrt (sum_list (map (\<lambda>v. (v - m)\<^sup>2) vs) / real (n - 1))))"

text \<open>\<open>unique\<close> and \<open>drop_duplicates\<close> keep the first occurrence of every value, in order
  of appearance; two NaN cells count as equal.\<close>

fun drop_duplicates :: "'a list \<Rightarrow> 'a list" where
  "drop_duplicates [] = []"
| "drop_duplicates (x # xs) = x # drop_duplicates (filter (\<lambda>y. y \<noteq> x) xs)"

definition unique :: "'a list \<Rightarrow> 'a list" where
  "unique xs = drop_duplicates xs"

text \<open>The keys of a \<open>groupby\<close>: the distinct keys that are present, sorted.\<close>

definition groupby_keys :: "('k::linorder) option list \<Rightarrow> 'k list" where
  "groupby_keys ks = sort (remdups (dropna ks))"

section \<open>Cleaning stage (\<open>data_cleaner.py\<close>)\<close>

subsection \<open>Step 2: missing values\<close>

text \<open>\<open>df.groupby('Category')['Price'].median()\<close>: a series indexed by the categories
  that are present; rows without a category belong to no group.\<close>

definition category_medians :: "raw_row list \<Rightarrow> (string \<times> real option) list" where
  "category_medians df =
     map (\<lambda>c. (c, nanmedian (map raw_Price (filter (\<lambda>r. raw_Category r = Some c) df))))
       (groupby_keys (map raw_Category df))"

text \<open>Indexing the series with a key it does not have raises \<open>KeyError\<close>; NaN is never
  a key of it.\<close>

definition series_get :: "(string \<times> 'v) list \<Rightarrow> string option \<Rightarrow> error + 'v" where
  "series_get s k =
     (case k of
        None \<Rightarrow> Inl KeyError
      | Some c \<Rightarrow> (case map_of s c of None \<Rightarrow> Inl KeyError | Some v \<Rightarrow> Inr v))"

text \<open>\<open>df.apply(f, axis=1)\<close>, and a conversion of a column cell by cell: both stop at
  the first exception.\<close>

fun apply_rows :: "('a \<Rightarrow> error + 'b) \<Rightarrow> 'a list \<Rightarrow> error + 'b list" where
  "apply_rows f [] = Inr []"
| "apply_rows f (x # xs) =
     (case f x of Inl e \<Rightarrow> Inl e
      | Inr y \<Rightarrow> (case apply_rows f xs of Inl e \<Rightarrow> Inl e | Inr ys \<Rightarrow> Inr (y # ys)))"

definition fill_price :: "raw_row list \<Rightarrow> error + raw_row list" where
  "fill_price df =
     (if isnull_any (map raw_Price df)
      then let cm = category_medians df
           in apply_rows
                (\<lambda>row. if raw_Price row = None
                        then (case series_get cm (raw_Category row) of
                                Inl e \<Rightarrow> Inl e
                              | Inr m \<Rightarrow> Inr (row\<lparr>raw_Price := m\<rparr>))
                        else Inr row) df
      else Inr df)"

definition fill_quantity :: "raw_row list \<Rightarrow> raw_row list" where
  "fill_quantity df =
     (if isnull_any (map raw_Quantity df)
      then map (\<lambda>r. r\<lparr>raw_Quantity :=
                       Some (case raw_Quantity r of None \<Rightarrow> 1 | Some q \<Rightarrow> q)\<rparr>) df
      else df)"

definition fill_region :: "raw_row list \<Rightarrow> raw_row list" where
  "fill_region df =
     (if isnull_any (map raw_Region df)
      then map (\<lambda>r. r\<lparr>raw_Region :=
                       Some (case raw_Region r of None \<Rightarrow> ''Unknown'' | Some s \<Rightarrow> s)\<rparr>) df
      else df)"

text \<open>Line 61: the revenue of every row is the price times the quantity as it stands,
  before the quantity is converted to an integer.\<close>

definition recalc_revenue :: "raw_row list \<Rightarrow> raw_row list" where
  "recalc_revenue df =
     map (\<lambda>r. r\<lparr>raw_Revenue := fmul (raw_Price r) (raw_Quantity r)\<rparr>) df"

definition handle_missing :: "raw_row list \<Rightarrow> error + raw_row list" where
  "handle_missing df =
     (case fill_price df of
        Inl e \<Rightarrow> Inl e
      | Inr df1 \<Rightarrow> Inr (recalc_revenue (fill_region (fill_quantity df1))))"

subsection \<open>Step 3: data types\<close>

text \<open>\<open>pd.to_datetime\<close> raises on a text that is no date.\<close>

definition to_datetime :: "date_cell \<Rightarrow> error + timestamp" where
  "to_datetime c = (case c of DateText t \<Rightarrow> Inr t | BadDateText \<Rightarrow> Inl ValueError)"

text \<open>\<open>astype(int)\<close> on a float column raises on NaN and drops the fraction of a
  number, rounding toward zero.\<close>

definition toward_zero :: "real \<Rightarrow> int" where
  "toward_zero x = (if 0 \<le> x then \<lfloor>x\<rfloor> else \<lceil>x\<rceil>)"

definition astype_int :: "real option \<Rightarrow> error + int" where
  "astype_int c = (case c of None \<Rightarrow> Inl ValueError | Some x \<Rightarrow> Inr (toward_zero x))"

text \<open>\<open>astype(str)\<close> turns a missing cell into the text \<open>nan\<close>.\<close>

definition astype_str :: "string option \<Rightarrow> string" where
  "astype_str c = (case c of None \<Rightarrow> ''nan'' | Some s \<Rightarrow> s)"

text \<open>
  Lines 70 to 82.  The dates of all rows are converted first (line 70), then the
  quantities (line 74); \<open>astype(float)\<close> leaves the prices and the revenues, floats
  already, as they are (lines 75 and 76); the six text columns become text last
  (lines 80 to 82).
\<close>

definition convert_types :: "raw_row list \<Rightarrow> error + typed_row list" where
  "convert_types df =
     (case apply_rows
             (\<lambda>r. case to_datetime (raw_OrderDate r) of
                     Inl e \<Rightarrow> Inl e
                   | Inr t \<Rightarrow> Inr (r, t)) df of
        Inl e \<Rightarrow> Inl e
      | Inr dated \<Rightarrow>
          apply_rows
            (\<lambda>(r, t). case astype_int (raw_Quantity r) of
                         Inl e \<Rightarrow> Inl e
                       | Inr q \<Rightarrow>
                           Inr \<lparr>OrderID = astype_str (raw_OrderID r),
                                ProductID = astype_str (raw_ProductID r),
                                ProductName = astype_str (raw_ProductName r),
                                Category = astype_str (raw_Category r),
                                Quantity = Some q,
                                Price = raw_Price r,
                                Revenue = raw_Revenue r,
                                OrderDate = t,
                                CustomerID = astype_str (raw_CustomerID r),
                                Region = Some (astype_str (raw_Region r))\<rparr>) dated)"

subsection \<open>Step 4: derived columns\<close>

definition profit_margins :: "(string \<times> real) list" where
  "profit_margins =
     [(''Electronics'', 0.25), (''Clothing'', 0.35), (''Home & Garden'', 0.30),
      (''Books'', 0.40), (''Sports & Outdoors'', 0.30), (''Toys & Games'', 0.35),
      (''Health & Beauty'', 0.40), (''Automotive'', 0.25), (''Food & Beverages'', 0.20),
      (''Office Supplies'', 0.30)]"

definition month_name :: "nat \<Rightarrow> string" where
  "month_name m =
     (if m = 1 then ''January'' else if m = 2 then ''February''
      else if m = 3 then ''March'' else if m = 4 then ''April''
      else if m = 5 then ''May'' else if m = 6 then ''June''
      else if m = 7 then ''July'' else if m = 8 then ''August''
      else if m = 9 then ''September'' else if m = 10 then ''October''
      else if m = 11 then ''November'' else ''December'')"

text \<open>\<open>str\<close> of a natural number, and of an integer.\<close>

fun str_nat :: "nat \<Rightarrow> string" where
  "str_nat n =
     (if n < 10 then [char_of (48 + n)] else str_nat (n div 10) @ [char_of (48 + n mod 10)])"

declare str_nat.simps [simp del]

definition str_int :: "int \<Rightarrow> string" where
  "str_int i = (if i < 0 then CHR ''-'' # str_nat (nat (- i)) else str_nat (nat i))"

text \<open>The text of a monthly period: \<open>YYYY-MM\<close>.\<close>

definition period_str :: "timestamp \<Rightarrow> string" where
  "period_str t =
     str_int (d_year t) @ ''-'' @
       (if d_month t < 10 then CHR ''0'' # str_nat (d_month t) else str_nat (d_month t))"

text \<open>The number of days from 1970-01-01 to a date of the Gregorian calendar; the
  difference of two of them is the \<open>days\<close> of the difference of the timestamps.\<close>

definition days_from_civil :: "timestamp \<Rightarrow> int" where
  "days_from_civil t =
     (let y = (if d_month t \<le> 2 then d_year t - 1 else d_year t);
          era = y div 400;
          yoe = y - era * 400;
          mp = (int (d_month t) + 9) mod 12;
          doy = (153 * mp + 2) div 5 + int (d_day t) - 1;
          doe = yoe * 365 + yoe div 4 - yoe div 100 + doy
      in era * 146097 + doe - 719468)"

definition derive :: "timestamp \<Rightarrow> typed_row \<Rightarrow> clean_row" where
  "derive current_date r =
     \<lparr>OrderID = OrderID r, ProductID = ProductID r, ProductName = ProductName r,
      Category = Category r, Quantity = Quantity r, Price = Price r, Revenue = Revenue r,
      OrderDate = OrderDate r, CustomerID = CustomerID r, Region = Region r,
      TotalSales = Revenue r,
      ProfitMargin = map_of profit_margins (Category r),
      Profit = fmul (Revenue r) (map_of profit_margins (Category r)),
      Year = d_year (OrderDate r),
      Month = d_month (OrderDate r),
      Quarter = (d_month (OrderDate r) - 1) div 3 + 1,
      MonthName = month_name (d_month (OrderDate r)),
      YearMonth = period_str (OrderDate r),
      DaysSinceOrder = days_from_civil current_date - days_from_civil (OrderDate r)\<rparr>"

subsection \<open>Step 5: validation and outliers\<close>

definition valid_row :: "clean_row \<Rightarrow> bool" where
  "valid_row r \<longleftrightarrow>
     fgt (Price r) (Some 0)
     \<and> (case Quantity r of None \<Rightarrow> False | Some q \<Rightarrow> q > 0)
     \<and> fgt (Revenue r) (Some 0)"

text \<open>The limits of one category, from the rows of that category in the current table.\<close>

definition upper_limit :: "clean_row list \<Rightarrow> string \<Rightarrow> real option" where
  "upper_limit df category =
     (let category_data = filter (\<lambda>r. Category r = category) df;
          mean_price = nanmean (map Price category_data);
          std_price = nanstd (map Price category_data)
      in fadd mean_price (fmul (Some 3) std_price))"

definition lower_limit :: "clean_row list \<Rightarrow> string \<Rightarrow> real option" where
  "lower_limit df category =
     (let category_data = filter (\<lambda>r. Category r = category) df;
          mean_price = nanmean (map Price category_data);
          std_price = nanstd (map Price category_data)
      in fsub mean_price (fmul (Some 3) std_price))"

definition is_outlier :: "clean_row list \<Rightarrow> string \<Rightarrow> clean_row \<Rightarrow> bool" where
  "is_outlier df category r \<longleftrightarrow>
     Category r = category
     \<and> (fgt (Price r) (upper_limit df category) \<or> flt (Price r) (lower_limit df category))"

text \<open>The loop over the categories: each iteration reads the table as the earlier
  iterations left it.\<close>

fun outlier_loop :: "string list \<Rightarrow> clean_row list \<Rightarrow> clean_row list" where
  "outlier_loop [] df = df"
| "outlier_loop (category # cats) df =
     (let outliers = filter (is_outlier df category) df
      in outlier_loop cats
           (if length outliers > 0 then filter (\<lambda>r. \<not> is_outlier df category r) df
            else df))"

definition remove_outliers :: "clean_row list \<Rightarrow> clean_row list" where
  "remove_outliers df = outlier_loop (unique (map Category df)) df"

subsection \<open>The whole stage\<close>

text \<open>The parameter \<open>current_date\<close> is the value of \<open>datetime.now()\<close>; the first
  exception ends the run.\<close>

definition clean_ecommerce_data :: "timestamp \<Rightarrow> raw_row list \<Rightarrow> error + clean_row list" where
  "clean_ecommerce_data current_date raw =
     (case handle_missing (drop_duplicates raw) of
        Inl e \<Rightarrow> Inl e
      | Inr df \<Rightarrow>
          (case convert_types df of
             Inl e \<Rightarrow> Inl e
           | Inr typed \<Rightarrow>
               Inr (remove_outliers (filter valid_row (map (derive current_date) typed)))))"

section \<open>Aggregation stage (\<open>analysis.py\<close>)\<close>

subsection \<open>Building blocks\<close>

text \<open>Rounding to the nearest integer, ties to the even one, and rounding to two
  decimal places (\<open>round(x, 2)\<close>, \<open>Series.round(2)\<close>).\<close>

definition rint :: "real \<Rightarrow> int" where
  "rint x =
     (let f = \<lfloor>x\<rfloor>; d = x - of_int f
      in if d < 1 / 2 then f else if d > 1 / 2 then f + 1
         else if even f then f else f + 1)"

definition round2 :: "real \<Rightarrow> real" where
  "round2 x = of_int (rint (x * 100)) / 100"

definition nunique :: "'a list \<Rightarrow> nat" where
  "nunique xs = length (remdups xs)"

text \<open>The groups of a \<open>groupby\<close>: one per key, in key order, each with its rows in row
  order.  Rows whose key is missing belong to no group.\<close>

definition groups :: "('r \<Rightarrow> ('k::linorder) option) \<Rightarrow> 'r list \<Rightarrow> ('k \<times> 'r list) list" where
  "groups key df =
     map (\<lambda>k. (k, filter (\<lambda>r. key r = Some k) df)) (groupby_keys (map key df))"

text \<open>\<open>sort_values(..., ascending=False)\<close> on a float column: descending, NaN last.\<close>

definition sort_values_desc :: "('a \<Rightarrow> real option) \<Rightarrow> 'a list \<Rightarrow> 'a list" where
  "sort_values_desc key xs =
     sort_key (\<lambda>x. - the (key x)) (filter (\<lambda>x. key x \<noteq> None) xs)
       @ filter (\<lambda>x. key x = None) xs"

subsection \<open>Total metrics\<close>

record total_metrics =
  Total_Revenue :: real
  Total_Sales :: real
  Total_Profit :: real
  Total_Orders :: nat
  Total_Products_Sold :: int
  Average_Order_Value :: real

definition calculate_total_sales_revenue :: "clean_row list \<Rightarrow> total_metrics" where
  "calculate_total_sales_revenue df =
     (let total_revenue = nansum (map Revenue df);
          total_sales = nansum (map TotalSales df);
          total_profit = nansum (map Profit df);
          total_orders = nunique (map OrderID df);
          total_products_sold = sum_list (dropna (map Quantity df));
          average_order_value =
            (if total_orders > 0 then total_revenue / real total_orders else 0)
      in \<lparr>Total_Revenue = round2 total_revenue,
          Total_Sales = round2 total_sales,
          Total_Profit = round2 total_profit,
          Total_Orders = total_orders,
          Total_Products_Sold = total_products_sold,
          Average_Order_Value = round2 average_order_value\<rparr>)"

subsection \<open>Best sellers\<close>

record product_summary =
  ps_ProductID :: string
  ps_ProductName :: string
  ps_Category :: string
  ps_TotalQuantity :: int
  ps_TotalRevenue :: real
  ps_OrderCount :: nat

definition product_groups :: "clean_row list \<Rightarrow> product_summary list" where
  "product_groups df =
     map (\<lambda>(k, g).
            \<lparr>ps_ProductID = fst k, ps_ProductName = fst (snd k), ps_Category = snd (snd k),
             ps_TotalQuantity = sum_list (dropna (map Quantity g)),
             ps_TotalRevenue = nansum (map Revenue g),
             ps_OrderCount = nunique (map OrderID g)\<rparr>)
       (groups (\<lambda>r. Some (ProductID r, ProductName r, Category r)) df)"

definition find_best_selling_products ::
  "clean_row list \<Rightarrow> nat \<Rightarrow> product_summary list \<times> product_summary list" where
  "find_best_selling_products df top_n =
     (let top_by_quantity = take top_n (sort_key (\<lambda>p. - ps_TotalQuantity p) (product_groups df));
          top_by_revenue = take top_n (sort_key (\<lambda>p. - ps_TotalRevenue p) (product_groups df))
      in (top_by_quantity, top_by_revenue))"

subsection \<open>Category rollup\<close>

record category_summary =
  cs_Category :: string
  cs_TotalRevenue :: real
  cs_AvgRevenue :: "real option"
  cs_TotalQuantity :: int
  cs_OrderCount :: nat
  cs_TotalProfit :: real
  cs_RevenuePercentage :: "real option"

text \<open>A share of the grand total, in percent, rounded to two places.  Dividing by a
  total of zero gives no finite number: \<open>None\<close>.\<close>

definition revenue_percentage :: "real \<Rightarrow> real \<Rightarrow> real option" where
  "revenue_percentage total_revenue grand_total =
     (if grand_total = 0 then None else Some (round2 (total_revenue / grand_total * 100)))"

definition analyze_high_revenue_categories :: "clean_row list \<Rightarrow> category_summary list" where
  "analyze_high_revenue_categories df =
     (let category_analysis =
            map (\<lambda>(k, g).
                   \<lparr>cs_Category = k,
                    cs_TotalRevenue = nansum (map Revenue g),
                    cs_AvgRevenue = nanmean (map Revenue g),
                    cs_TotalQuantity = sum_list (dropna (map Quantity g)),
                    cs_OrderCount = nunique (map OrderID g),
                    cs_TotalProfit = nansum (map Profit g),
                    cs_RevenuePercentage = None\<rparr>)
              (groups (\<lambda>r. Some (Category r)) df);
          grand_total = sum_list (map cs_TotalRevenue category_analysis);
          with_percentage =
            map (\<lambda>c. c\<lparr>cs_RevenuePercentage :=
                          revenue_percentage (cs_TotalRevenue c) grand_total\<rparr>)
              category_analysis
      in sort_key (\<lambda>c. - cs_TotalRevenue c) with_percentage)"

subsection \<open>Trends\<close>

record monthly_summary =
  ms_YearMonth :: string
  ms_TotalRevenue :: real
  ms_TotalQuantity :: int
  ms_OrderCount :: nat
  ms_TotalProfit :: real

record quarterly_summary =
  qs_Year :: int
  qs_Quarter :: nat
  qs_TotalRevenue :: real
  qs_TotalQuantity :: int
  qs_OrderCount :: nat
  qs_TotalProfit :: real
  qs_YearQuarter :: string

definition analyze_sales_trends ::
  "clean_row list \<Rightarrow> monthly_summary list \<times> quarterly_summary list" where
  "analyze_sales_trends df =
     (let monthly_trends =
            sort_key ms_YearMonth
              (map (\<lambda>(k, g).
                      \<lparr>ms_YearMonth = k,
                       ms_TotalRevenue = nansum (map Revenue g),
                       ms_TotalQuantity = sum_list (dropna (map Quantity g)),
                       ms_OrderCount = nunique (map OrderID g),
                       ms_TotalProfit = nansum (map Profit g)\<rparr>)
                 (groups (\<lambda>r. Some (YearMonth r)) df));
          quarterly_trends =
            sort_key (\<lambda>q. (qs_Year q, qs_Quarter q))
              (map (\<lambda>(k, g).
                      \<lparr>qs_Year = fst k, qs_Quarter = snd k,
                       qs_TotalRevenue = nansum (map Revenue g),
                       qs_TotalQuantity = sum_list (dropna (map Quantity g)),
                       qs_OrderCount = nunique (map OrderID g),
                       qs_TotalProfit = nansum (map Profit g),
                       qs_YearQuarter = str_int (fst k) @ ''-Q'' @ str_nat (snd k)\<rparr>)
                 (groups (\<lambda>r. Some (Year r, Quarter r)) df))
      in (monthly_trends, quarterly_trends))"

subsection \<open>Regional rollup\<close>

record regional_summary =
  rs_Region :: string
  rs_TotalRevenue :: real
  rs_TotalQuantity :: int
  rs_OrderCount :: nat
  rs_CustomerCount :: nat
  rs_TotalProfit :: real
  rs_RevenuePercentage :: "real option"

definition generate_regional_analysis :: "clean_row list \<Rightarrow> regional_summary list" where
  "generate_regional_analysis df =
     (let regional_analysis =
            map (\<lambda>(k, g).
                   \<lparr>rs_Region = k,
                    rs_TotalRevenue = nansum (map Revenue g),
                    rs_TotalQuantity = sum_list (dropna (map Quantity g)),
                    rs_OrderCount = nunique (map OrderID g),
                    rs_CustomerCount = nunique (map CustomerID g),
                    rs_TotalProfit = nansum (map Profit g),
                    rs_RevenuePercentage = None\<rparr>)
              (groups Region df);
          grand_total = sum_list (map rs_TotalRevenue regional_analysis);
          with_percentage =
            map (\<lambda>c. c\<lparr>rs_RevenuePercentage :=
                          revenue_percentage (rs_TotalRevenue c) grand_total\<rparr>)
              regional_analysis
      in sort_key (\<lambda>c. - rs_TotalRevenue c) with_percentage)"

subsection \<open>Average order value\<close>

text \<open>\<open>x.groupby('OrderID')['Revenue'].sum()\<close>: the revenue of every order of \<open>x\<close>, and
  its \<open>mean()\<close>.\<close>

definition order_totals :: "clean_row list \<Rightarrow> real list" where
  "order_totals x = map (\<lambda>(k, g). nansum (map Revenue g)) (groups (\<lambda>r. Some (OrderID r)) x)"

definition mean_order_total :: "clean_row list \<Rightarrow> real option" where
  "mean_order_total x = nanmean (map Some (order_totals x))"

text \<open>
  \<open>df.groupby(key).apply(f, include_groups=False).reset_index()\<close>, followed by the
  assignment of the two column names.  With at least one group, \<open>apply\<close> gives a series
  indexed by the key and the frame has the two columns (key, value).  With no group,
  \<open>apply\<close> calls \<open>f\<close> on nothing and gives an empty frame that still has the columns of
  its input; after \<open>reset_index\<close> the frame has more than two columns, and assigning two
  names to them raises \<open>ValueError\<close> (length mismatch).
\<close>

definition apply_reset_rename ::
  "(clean_row \<Rightarrow> string option) \<Rightarrow> (clean_row list \<Rightarrow> real option) \<Rightarrow> clean_row list
     \<Rightarrow> error + (string \<times> real option) list" where
  "apply_reset_rename key f df =
     (let gs = groups key df
      in if gs = [] then Inl ValueError else Inr (map (\<lambda>(k, g). (k, f g)) gs))"

record aov_results =
  Overall_AOV :: "real option"
  Category_AOV :: "(string \<times> real option) list"
  Region_AOV :: "(string \<times> real option) list"

definition calculate_average_order_value :: "clean_row list \<Rightarrow> error + aov_results" where
  "calculate_average_order_value df =
     (let overall_aov = mean_order_total df
      in case apply_reset_rename (\<lambda>r. Some (Category r)) mean_order_total df of
           Inl e \<Rightarrow> Inl e
         | Inr category_aov \<Rightarrow>
             (case apply_reset_rename Region mean_order_total df of
                Inl e \<Rightarrow> Inl e
              | Inr region_aov \<Rightarrow>
                  Inr \<lparr>Overall_AOV = map_option round2 overall_aov,
                       Category_AOV = sort_values_desc snd category_aov,
                       Region_AOV = sort_values_desc snd region_aov\<rparr>))"
section \<open>Specification-side definitions and example tables\<close>

text \<open>The row that imputation prescribes for a row \<open>r\<close> of the table \<open>df\<close>: a missing
  price becomes the median of the prices present in the category of \<open>r\<close>, a missing
  quantity becomes 1, a missing region becomes \<open>Unknown\<close>, and the revenue is the product
  of the price and the quantity.\<close>

definition imputed_row :: "raw_row list \<Rightarrow> raw_row \<Rightarrow> raw_row" where
  "imputed_row df r =
     (let price = (case raw_Price r of
                     None \<Rightarrow> nanmedian (map raw_Price
                                 (filter (\<lambda>x. raw_Category x = raw_Category r) df))
                   | Some p \<Rightarrow> Some p);
          quantity = (case raw_Quantity r of None \<Rightarrow> 1 | Some q \<Rightarrow> q);
          region = (case raw_Region r of None \<Rightarrow> ''Unknown'' | Some s \<Rightarrow> s)
      in r\<lparr>raw_Quantity := Some quantity, raw_Price := price, raw_Region := Some region,
           raw_Revenue := map_option (\<lambda>p. p * quantity) price\<rparr>)"

text \<open>The effect of the price-filling lambda on one row, where it does not raise.\<close>

definition fill_price_row :: "raw_row list \<Rightarrow> raw_row \<Rightarrow> raw_row" where
  "fill_price_row df r =
     (case raw_Price r of
        None \<Rightarrow> r\<lparr>raw_Price := nanmedian (map raw_Price
                                  (filter (\<lambda>x. raw_Category x = raw_Category r) df))\<rparr>
      | Some p \<Rightarrow> r)"

text \<open>The type conversions of step 3 on one row.\<close>

definition type_row :: "raw_row \<Rightarrow> error + typed_row" where
  "type_row r =
     (case to_datetime (raw_OrderDate r) of
        Inl e \<Rightarrow> Inl e
      | Inr t \<Rightarrow>
          (case astype_int (raw_Quantity r) of
             Inl e \<Rightarrow> Inl e
           | Inr q \<Rightarrow>
               Inr \<lparr>OrderID = astype_str (raw_OrderID r),
                    ProductID = astype_str (raw_ProductID r),
                    ProductName = astype_str (raw_ProductName r),
                    Category = astype_str (raw_Category r),
                    Quantity = Some q,
                    Price = raw_Price r,
                    Revenue = raw_Revenue r,
                    OrderDate = t,
                    CustomerID = astype_str (raw_CustomerID r),
                    Region = Some (astype_str (raw_Region r))\<rparr>))"

text \<open>A row that lacks both its price and its category.\<close>

definition both_missing :: "raw_row \<Rightarrow> bool" where
  "both_missing r \<longleftrightarrow> raw_Price r = None \<and> raw_Category r = None"

text \<open>The inputs on which no statement of the stage raises: every row without a price
  has a category, and every date parses.\<close>

definition accepted :: "raw_row list \<Rightarrow> bool" where
  "accepted raw \<longleftrightarrow>
     list_all (\<lambda>x. \<not> both_missing x \<and> raw_OrderDate x \<noteq> BadDateText) raw"

text \<open>Example tables.\<close>

definition example_now :: timestamp where
  "example_now = \<lparr>d_year = 2024, d_month = 4, d_day = 1\<rparr>"

definition books_line :: raw_row where
  "books_line =
     \<lparr>raw_OrderID = Some ''O1'', raw_ProductID = Some ''P1'', raw_ProductName = Some ''Novel'',
      raw_Category = Some ''Books'', raw_Quantity = Some 2, raw_Price = Some 10,
      raw_Revenue = Some 999,
      raw_OrderDate = DateText \<lparr>d_year = 2024, d_month = 3, d_day = 15\<rparr>,
      raw_CustomerID = Some ''C1'', raw_Region = Some ''Europe''\<rparr>"

definition books_clean :: clean_row where
  "books_clean =
     \<lparr>OrderID = ''O1'', ProductID = ''P1'', ProductName = ''Novel'', Category = ''Books'',
      Quantity = Some 2, Price = Some 10, Revenue = Some 20,
      OrderDate = \<lparr>d_year = 2024, d_month = 3, d_day = 15\<rparr>,
      CustomerID = ''C1'', Region = Some ''Europe'',
      TotalSales = Some 20, ProfitMargin = Some 0.4, Profit = Some 8,
      Year = 2024, Month = 3, Quarter = 1, MonthName = ''March'',
      YearMonth = ''2024-03'', DaysSinceOrder = 17\<rparr>"

definition gadgets_clean :: clean_row where
  "gadgets_clean =
     \<lparr>OrderID = ''O1'', ProductID = ''P1'', ProductName = ''Novel'', Category = ''Gadgets'',
      Quantity = Some 2, Price = Some 10, Revenue = Some 20,
      OrderDate = \<lparr>d_year = 2024, d_month = 3, d_day = 15\<rparr>,
      CustomerID = ''C1'', Region = Some ''Europe'',
      TotalSales = Some 20, ProfitMargin = None, Profit = None,
      Year = 2024, Month = 3, Quarter = 1, MonthName = ''March'',
      YearMonth = ''2024-03'', DaysSinceOrder = 17\<rparr>"

text \<open>A line whose quantity has a fraction, and the row that the stage makes of it: the
  revenue is 10 times 2.5, the quantity is 2.\<close>

definition fraction_line :: raw_row where
  "fraction_line = books_line\<lparr>raw_OrderID := Some ''O4'', raw_Quantity := Some 2.5\<rparr>"

definition fraction_clean :: clean_row where
  "fraction_clean =
     books_clean\<lparr>OrderID := ''O4'', Revenue := Some 25, TotalSales := Some 25,
       Profit := Some 10\<rparr>"

text \<open>A line that lacks both its price and its category.\<close>

definition uncategorised_line :: raw_row where
  "uncategorised_line = books_line\<lparr>raw_Category := None, raw_Price := None\<rparr>"

definition missing_example :: "raw_row list" where
  "missing_example =
     [books_line,
      books_line\<lparr>raw_OrderID := Some ''O2'', raw_Quantity := None, raw_Price := None,
        raw_Region := None\<rparr>,
      books_line\<lparr>raw_OrderID := Some ''O3'', raw_Quantity := Some 1, raw_Price := Some 30\<rparr>]"


text \<open>A table for the outlier filter: eleven book prices, one of them far off, and a
  single toy.\<close>

definition price_row :: "string \<Rightarrow> real \<Rightarrow> clean_row" where
  "price_row c p = books_clean\<lparr>Category := c, Price := Some p\<rparr>"

definition outlier_example :: "clean_row list" where
  "outlier_example =
     replicate 10 (price_row ''Books'' 10) @ [price_row ''Books'' 1000, price_row ''Toys'' 5]"

text \<open>
  A second run of the stage on the table that the first run returned.  The stage
  overwrites every derived column, so the second run is the stage on the ten source
  columns of the cleaned rows, each cell as the first run left it: a text, a whole
  quantity, a date that parses.  The derived columns of a cleaned row are functions of
  its source columns and of the date of the run, so two rows of a cleaned table are equal
  exactly when their source columns are.  Writing the table to a file and reading the
  file back is not modelled.
\<close>

definition raw_columns :: "clean_row \<Rightarrow> raw_row" where
  "raw_columns r =
     \<lparr>raw_OrderID = Some (OrderID r), raw_ProductID = Some (ProductID r),
      raw_ProductName = Some (ProductName r), raw_Category = Some (Category r),
      raw_Quantity = map_option real_of_int (Quantity r), raw_Price = Price r,
      raw_Revenue = Revenue r, raw_OrderDate = DateText (OrderDate r),
      raw_CustomerID = Some (CustomerID r), raw_Region = Region r\<rparr>"

text \<open>A cleaned row with its \<open>DaysSinceOrder\<close> as a run at the given date computes it.\<close>

definition set_days :: "timestamp \<Rightarrow> clean_row \<Rightarrow> clean_row" where
  "set_days current_date r =
     r\<lparr>DaysSinceOrder := days_from_civil current_date - days_from_civil (OrderDate r)\<rparr>"

text \<open>Two lines that differ only in that one lacks its price.\<close>

definition duplicate_example :: "raw_row list" where
  "duplicate_example = [books_line, books_line\<lparr>raw_Price := None\<rparr>]"

text \<open>The row that a second run makes of the row with the fractional quantity: the
  revenue is 10 times 2.\<close>

definition fraction_recleaned :: clean_row where
  "fraction_recleaned = books_clean\<lparr>OrderID := ''O4''\<rparr>"

text \<open>Lines of three book orders and of a toy in the first order, with a repeated line, a
  line that lacks its price and its region, and a line with a negative price; and the
  table that the stage makes of them.  The missing price becomes 10, the median of the
  book prices 10, 30 and -5.\<close>

definition second_books_line :: raw_row where
  "second_books_line =
     books_line\<lparr>raw_OrderID := Some ''O2'', raw_Quantity := Some 1, raw_Price := Some 30\<rparr>"

definition toys_line :: raw_row where
  "toys_line =
     books_line\<lparr>raw_ProductID := Some ''P2'', raw_ProductName := Some ''Puzzle'',
       raw_Category := Some ''Toys & Games'', raw_Quantity := Some 1, raw_Price := Some 5\<rparr>"

definition second_books_clean :: clean_row where
  "second_books_clean =
     books_clean\<lparr>OrderID := ''O2'', Quantity := Some 1, Price := Some 30, Revenue := Some 30,
       TotalSales := Some 30, Profit := Some 12\<rparr>"

definition toys_clean :: clean_row where
  "toys_clean =
     books_clean\<lparr>ProductID := ''P2'', ProductName := ''Puzzle'', Category := ''Toys & Games'',
       Quantity := Some 1, Price := Some 5, Revenue := Some 5, TotalSales := Some 5,
       ProfitMargin := Some 0.35, Profit := Some 1.75\<rparr>"

definition reclean_lines :: "raw_row list" where
  "reclean_lines =
     [books_line, books_line, second_books_line,
      books_line\<lparr>raw_OrderID := Some ''O3'', raw_Price := None, raw_Region := None\<rparr>,
      toys_line,
      books_line\<lparr>raw_OrderID := Some ''O5'', raw_Price := Some (- 5)\<rparr>]"

definition reclean_out :: "clean_row list" where
  "reclean_out =
     [books_clean, second_books_clean,
      books_clean\<lparr>OrderID := ''O3'', Region := Some ''Unknown''\<rparr>,
      toys_clean]"

definition example_later :: timestamp where
  "example_later = \<lparr>d_year = 2024, d_month = 4, d_day = 11\<rparr>"

text \<open>Book prices where trimming the far price makes the price 11 an outlier.\<close>

definition retrim_example :: "clean_row list" where
  "retrim_example =
     replicate 10 (price_row ''Books'' 10) @ [price_row ''Books'' 1000, price_row ''Books'' 11]"

definition retrimmed_once :: "clean_row list" where
  "retrimmed_once = replicate 10 (price_row ''Books'' 10) @ [price_row ''Books'' 11]"




text \<open>The two book orders of the specification's example, and the same orders with a
  toy added to the first order; the lines that the stage reads and the tables that it
  makes of them.\<close>

definition books_lines :: "raw_row list" where
  "books_lines = [books_line, second_books_line]"

definition books_example :: "clean_row list" where
  "books_example = [books_clean, second_books_clean]"



section \<open>Properties of the cleaning stage\<close>

subsection \<open>Duplicates, keys and row-wise application\<close>

lemma set_drop_duplicates: "set (drop_duplicates xs) = set xs"
  by (induction xs rule: drop_duplicates.induct) auto

lemma distinct_drop_duplicates: "distinct (drop_duplicates xs)"
  by (induction xs rule: drop_duplicates.induct) (auto simp: set_drop_duplicates)

lemma drop_duplicates_distinct: "distinct xs \<Longrightarrow> drop_duplicates xs = xs"
proof (induction xs rule: drop_duplicates.induct)
  case 1
  show ?case by simp
next
  case (2 x xs)
  then have "filter (\<lambda>y. y \<noteq> x) xs = xs"
    by (auto intro: filter_True)
  with 2 show ?case by simp
qed


lemma set_dropna: "set (dropna xs) = {x. Some x \<in> set xs}"
  by (induction xs rule: dropna.induct) auto

lemma set_groupby_keys: "set (groupby_keys ks) = {k. Some k \<in> set ks}"
  by (simp add: groupby_keys_def set_dropna)


lemma sorted_groupby_keys: "sorted (groupby_keys ks)"
  by (simp add: groupby_keys_def)

lemma map_of_tabulate: "k \<in> set ks \<Longrightarrow> map_of (map (\<lambda>c. (c, f c)) ks) k = Some (f k)"
  by (induction ks) auto

lemma isnull_any_iff: "isnull_any xs \<longleftrightarrow> None \<in> set xs"
  by (auto simp: isnull_any_def list_ex_iff)

lemma apply_rows_total:
  "(\<And>x. x \<in> set xs \<Longrightarrow> f x = Inr (g x)) \<Longrightarrow> apply_rows f xs = Inr (map g xs)"
  by (induction xs) auto

lemma apply_rows_raises:
  assumes "\<exists>x\<in>set xs. f x = Inl e" and "\<And>x e'. x \<in> set xs \<Longrightarrow> f x = Inl e' \<Longrightarrow> e' = e"
  shows "apply_rows f xs = Inl e"
  using assms
proof (induction xs)
  case Nil
  then show ?case by simp
next
  case (Cons x xs)
  show ?case
  proof (cases "f x")
    case (Inl e')
    with Cons.prems(2) [of x e'] show ?thesis by simp
  next
    case (Inr y)
    with Cons.prems(1) have "\<exists>x\<in>set xs. f x = Inl e" by auto
    then have "apply_rows f xs = Inl e"
      using Cons.prems(2) by (intro Cons.IH) auto
    with Inr show ?thesis by simp
  qed
qed

lemma apply_rows_Inr:
  "apply_rows f xs = Inr ys \<longleftrightarrow> list_all2 (\<lambda>x y. f x = Inr y) xs ys"
proof (induction xs arbitrary: ys)
  case Nil
  show ?case by auto
next
  case (Cons x xs)
  show ?case
    by (cases ys) (auto simp: Cons.IH [symmetric] split: sum.splits)
qed


subsection \<open>Imputation, row by row\<close>

text \<open>The median lookup raises exactly for a row that lacks both its price and its
  category; on every other row the lambda gives the filled row.\<close>

lemma series_get_category_medians:
  "r \<in> set df \<Longrightarrow> raw_Category r = Some c \<Longrightarrow>
   series_get (category_medians df) (Some c) =
     Inr (nanmedian (map raw_Price (filter (\<lambda>x. raw_Category x = Some c) df)))"
proof -
  assume "r \<in> set df" and c: "raw_Category r = Some c"
  then have "c \<in> set (groupby_keys (map raw_Category df))"
    by (force simp: set_groupby_keys)
  then show ?thesis
    by (simp add: series_get_def category_medians_def map_of_tabulate)
qed

lemma series_get_missing: "series_get s None = Inl KeyError"
  by (simp add: series_get_def)

lemma series_get_error: "series_get s k = Inl e \<Longrightarrow> e = KeyError"
  by (auto simp: series_get_def split: option.splits)

lemma fill_price_rows:
  "fill_price df =
     (if \<exists>r\<in>set df. both_missing r then Inl KeyError else Inr (map (fill_price_row df) df))"
proof (cases "isnull_any (map raw_Price df)")
  case True
  let ?f = "\<lambda>row. if raw_Price row = None
                  then (case series_get (category_medians df) (raw_Category row) of
                          Inl e \<Rightarrow> Inl e
                        | Inr m \<Rightarrow> Inr (row\<lparr>raw_Price := m\<rparr>))
                  else Inr row"
  have fp: "fill_price df = apply_rows ?f df"
    using True by (simp add: fill_price_def)
  show ?thesis
  proof (cases "\<exists>r\<in>set df. both_missing r")
    case True
    then obtain r where "r \<in> set df" "raw_Price r = None" "raw_Category r = None"
      by (auto simp: both_missing_def)
    moreover from this have "?f r = Inl KeyError"
      by (simp add: series_get_missing)
    ultimately have "\<exists>x\<in>set df. ?f x = Inl KeyError"
      by blast
    moreover have "e' = KeyError" if "?f x = Inl e'" for x e'
      using that by (auto split: if_splits sum.splits dest: series_get_error)
    ultimately have "apply_rows ?f df = Inl KeyError"
      by (intro apply_rows_raises) auto
    with True fp show ?thesis by simp
  next
    case False
    have "?f x = Inr (fill_price_row df x)" if "x \<in> set df" for x
    proof (cases "raw_Price x")
      case None
      with False that obtain c where "raw_Category x = Some c"
        by (auto simp: both_missing_def)
      with None that show ?thesis
        by (simp add: series_get_category_medians fill_price_row_def)
    next
      case (Some p)
      then show ?thesis by (simp add: fill_price_row_def)
    qed
    then have "apply_rows ?f df = Inr (map (fill_price_row df) df)"
      by (rule apply_rows_total)
    with False fp show ?thesis by simp
  qed
next
  case False
  then have "None \<notin> raw_Price ` set df"
    by (simp add: isnull_any_iff)
  then have present: "\<forall>r\<in>set df. raw_Price r \<noteq> None"
    by (metis image_eqI)
  then have "map (fill_price_row df) df = df"
    by (intro map_idI) (auto simp: fill_price_row_def)
  moreover from present have "\<not> (\<exists>r\<in>set df. both_missing r)"
    by (auto simp: both_missing_def)
  ultimately show ?thesis
    using False by (simp add: fill_price_def)
qed

lemma fill_quantity_rows:
  "fill_quantity df =
     map (\<lambda>r. r\<lparr>raw_Quantity := Some (case raw_Quantity r of None \<Rightarrow> 1 | Some q \<Rightarrow> q)\<rparr>) df"
proof (cases "isnull_any (map raw_Quantity df)")
  case True
  then show ?thesis by (simp add: fill_quantity_def)
next
  case False
  then have "None \<notin> raw_Quantity ` set df"
    by (simp add: isnull_any_iff)
  then have "\<forall>r\<in>set df. raw_Quantity r \<noteq> None"
    by (metis image_eqI)
  then have "map (\<lambda>r. r\<lparr>raw_Quantity := Some (case raw_Quantity r of None \<Rightarrow> 1 | Some q \<Rightarrow> q)\<rparr>) df = df"
    by (intro map_idI) auto
  with False show ?thesis by (simp add: fill_quantity_def)
qed

lemma fill_region_rows:
  "fill_region df =
     map (\<lambda>r. r\<lparr>raw_Region := Some (case raw_Region r of None \<Rightarrow> ''Unknown'' | Some s \<Rightarrow> s)\<rparr>) df"
proof (cases "isnull_any (map raw_Region df)")
  case True
  then show ?thesis by (simp add: fill_region_def)
next
  case False
  then have "None \<notin> raw_Region ` set df"
    by (simp add: isnull_any_iff)
  then have "\<forall>r\<in>set df. raw_Region r \<noteq> None"
    by (metis image_eqI)
  then have "map (\<lambda>r. r\<lparr>raw_Region := Some (case raw_Region r of None \<Rightarrow> ''Unknown'' | Some s \<Rightarrow> s)\<rparr>) df = df"
    by (intro map_idI) auto
  with False show ?thesis by (simp add: fill_region_def)
qed

lemma handle_missing_rows:
  "handle_missing df =
     (if \<exists>r\<in>set df. both_missing r then Inl KeyError else Inr (map (imputed_row df) df))"
proof -
  have "recalc_revenue (fill_region (fill_quantity (map (fill_price_row df) df)))
        = map (imputed_row df) df"
    unfolding fill_quantity_rows fill_region_rows recalc_revenue_def
    by (auto simp: imputed_row_def fill_price_row_def fmul_def Let_def
          split: option.splits)
  then show ?thesis
    by (simp add: handle_missing_def fill_price_rows)
qed



subsection \<open>The type conversions, row by row\<close>

text \<open>Every error of step 3 is a \<open>ValueError\<close>, so converting column after column and
  converting row after row give the same result.\<close>

lemma to_datetime_error: "to_datetime c = Inl e \<Longrightarrow> e = ValueError"
  by (auto simp: to_datetime_def split: date_cell.splits)

lemma astype_int_error: "astype_int c = Inl e \<Longrightarrow> e = ValueError"
  by (auto simp: astype_int_def split: option.splits)

lemma type_row_error: "type_row r = Inl e \<Longrightarrow> e = ValueError"
  by (auto simp: type_row_def split: sum.splits dest: to_datetime_error astype_int_error)

lemma apply_rows_error:
  assumes "apply_rows f xs = Inl e"
  shows "\<exists>x\<in>set xs. f x = Inl e"
  using assms by (induction xs) (auto split: sum.splits)

lemma convert_types_rows: "convert_types df = apply_rows type_row df"
proof (induction df)
  case Nil
  show ?case by (simp add: convert_types_def)
next
  case (Cons r rs)
  let ?F = "\<lambda>r :: raw_row.
              case to_datetime (raw_OrderDate r) of Inl e \<Rightarrow> Inl e | Inr t \<Rightarrow> Inr (r, t)"
  show ?case
  proof (cases "to_datetime (raw_OrderDate r)")
    case (Inl e)
    then show ?thesis by (simp add: convert_types_def type_row_def)
  next
    case (Inr t)
    show ?thesis
    proof (cases "apply_rows ?F rs")
      case (Inl e)
      from apply_rows_error [OF this] obtain x :: raw_row
        where "(case to_datetime (raw_OrderDate x) of
                  Inl e \<Rightarrow> Inl e | Inr t \<Rightarrow> Inr (x, t)) = Inl e"
        by blast
      then have e: "e = ValueError"
        by (cases "to_datetime (raw_OrderDate x)") (auto dest: to_datetime_error)
      from Inl have rs: "apply_rows type_row rs = Inl ValueError"
        using Cons.IH by (simp add: convert_types_def e)
      have "convert_types (r # rs) = Inl ValueError"
        using Inl Inr by (simp add: convert_types_def e)
      moreover have "apply_rows type_row (r # rs) = Inl ValueError"
        using rs by (auto split: sum.splits dest: type_row_error)
      ultimately show ?thesis by simp
    next
      case dated: (Inr dated)
      let ?G = "\<lambda>(r :: raw_row, t).
                  case astype_int (raw_Quantity r) of
                    Inl e \<Rightarrow> Inl e
                  | Inr q \<Rightarrow>
                      Inr \<lparr>OrderID = astype_str (raw_OrderID r),
                           ProductID = astype_str (raw_ProductID r),
                           ProductName = astype_str (raw_ProductName r),
                           Category = astype_str (raw_Category r),
                           Quantity = Some q,
                           Price = raw_Price r,
                           Revenue = raw_Revenue r,
                           OrderDate = t,
                           CustomerID = astype_str (raw_CustomerID r),
                           Region = Some (astype_str (raw_Region r))\<rparr>"
      have rest: "apply_rows type_row rs = apply_rows ?G dated"
        using Cons.IH dated by (simp add: convert_types_def)
      have first: "type_row r = ?G (r, t)"
        using Inr by (simp add: type_row_def)
      have "convert_types (r # rs) = apply_rows ?G ((r, t) # dated)"
        using Inr dated by (simp add: convert_types_def)
      also have "\<dots> = (case ?G (r, t) of
                          Inl e \<Rightarrow> Inl e
                        | Inr y \<Rightarrow> (case apply_rows ?G dated of
                                     Inl e \<Rightarrow> Inl e | Inr ys \<Rightarrow> Inr (y # ys)))"
        by (simp only: apply_rows.simps)
      also have "\<dots> = apply_rows type_row (r # rs)"
        by (simp only: apply_rows.simps rest first)
      finally show ?thesis .
    qed
  qed
qed

lemma type_row_fields:
  assumes "type_row y = Inr t"
  shows "Price t = raw_Price y" and "Revenue t = raw_Revenue y"
    and "Category t = astype_str (raw_Category y)"
    and "Region t = Some (astype_str (raw_Region y))"
    and "\<exists>x. raw_Quantity y = Some x \<and> Quantity t = Some (toward_zero x)"
    and "raw_OrderDate y = DateText (OrderDate t)"
  using assms
  by (auto simp: type_row_def to_datetime_def astype_int_def
      split: sum.splits date_cell.splits option.splits)

lemma type_row_imputed:
  "(\<exists>t. type_row (imputed_row df x) = Inr t) \<longleftrightarrow> raw_OrderDate x \<noteq> BadDateText"
  by (auto simp: type_row_def imputed_row_def Let_def to_datetime_def astype_int_def
      split: sum.splits date_cell.splits option.splits)

lemma apply_rows_succeeds:
  "(\<forall>x\<in>set xs. \<exists>y. f x = Inr y) \<Longrightarrow> \<exists>ys. apply_rows f xs = Inr ys"
  by (induction xs) auto

lemma list_all2_right:
  "list_all2 P xs ys \<Longrightarrow> y \<in> set ys \<Longrightarrow> \<exists>x\<in>set xs. P x y"
  by (induction rule: list_all2_induct) auto

lemma list_all2_left:
  "list_all2 P xs ys \<Longrightarrow> x \<in> set xs \<Longrightarrow> \<exists>y\<in>set ys. P x y"
  by (induction rule: list_all2_induct) auto


subsection \<open>The stage as a whole\<close>

text \<open>The stage returns a table exactly on the accepted inputs; it raises \<open>KeyError\<close>
  for a row without price and category, and \<open>ValueError\<close> for a date that does not
  parse.  Every row of the returned table is the derived, typed, imputed form of a row
  of the input, and passed the validity filter.\<close>

lemma set_outlier_loop: "set (outlier_loop cats df) \<subseteq> set df"
proof (induction cats arbitrary: df)
  case Nil
  show ?case by simp
next
  case (Cons c cats)
  have "set (outlier_loop cats (filter (\<lambda>r. \<not> is_outlier df c r) df)) \<subseteq> set df"
    using Cons.IH [of "filter (\<lambda>r. \<not> is_outlier df c r) df"] by auto
  with Cons.IH [of df] show ?case
    by (simp add: Let_def)
qed

lemma set_remove_outliers: "set (remove_outliers df) \<subseteq> set df"
  by (simp add: remove_outliers_def set_outlier_loop)

lemma clean_result:
  "clean_ecommerce_data now raw =
     (if \<exists>r\<in>set raw. both_missing r then Inl KeyError
      else case apply_rows type_row
                  (map (imputed_row (drop_duplicates raw)) (drop_duplicates raw)) of
             Inl e \<Rightarrow> Inl e
           | Inr typed \<Rightarrow> Inr (remove_outliers (filter valid_row (map (derive now) typed))))"
  by (simp add: clean_ecommerce_data_def handle_missing_rows convert_types_rows
      set_drop_duplicates)

lemma clean_returns_iff:
  "(\<exists>out. clean_ecommerce_data now raw = Inr out) \<longleftrightarrow> accepted raw"
proof
  assume "\<exists>out. clean_ecommerce_data now raw = Inr out"
  then obtain out where out: "clean_ecommerce_data now raw = Inr out" ..
  let ?D = "drop_duplicates raw"
  from out have nb: "\<not> (\<exists>r\<in>set raw. both_missing r)"
    by (auto simp: clean_result split: if_splits)
  with out obtain typed
    where "apply_rows type_row (map (imputed_row ?D) ?D) = Inr typed"
    by (auto simp: clean_result split: sum.splits)
  then have all: "list_all2 (\<lambda>y t. type_row y = Inr t) (map (imputed_row ?D) ?D) typed"
    by (simp add: apply_rows_Inr)
  have "raw_OrderDate x \<noteq> BadDateText" if "x \<in> set raw" for x
  proof -
    from that have "imputed_row ?D x \<in> set (map (imputed_row ?D) ?D)"
      by (simp add: set_drop_duplicates)
    from list_all2_left [OF all this] have "\<exists>t. type_row (imputed_row ?D x) = Inr t"
      by blast
    then show ?thesis by (simp add: type_row_imputed)
  qed
  with nb show "accepted raw"
    by (auto simp: accepted_def list_all_iff)
next
  assume acc: "accepted raw"
  let ?D = "drop_duplicates raw"
  from acc have nb: "\<not> (\<exists>r\<in>set raw. both_missing r)"
    by (auto simp: accepted_def list_all_iff)
  from acc have "\<forall>y\<in>set (map (imputed_row ?D) ?D). \<exists>t. type_row y = Inr t"
    by (auto simp: accepted_def list_all_iff set_drop_duplicates type_row_imputed)
  from apply_rows_succeeds [OF this]
  obtain typed where "apply_rows type_row (map (imputed_row ?D) ?D) = Inr typed"
    by blast
  with nb show "\<exists>out. clean_ecommerce_data now raw = Inr out"
    by (simp add: clean_result)
qed

lemma clean_raises:
  assumes "clean_ecommerce_data now raw = Inl e"
  shows "(e = KeyError \<and> (\<exists>r\<in>set raw. both_missing r))
       \<or> (e = ValueError \<and> (\<exists>r\<in>set raw. raw_OrderDate r = BadDateText))"
proof (cases "\<exists>r\<in>set raw. both_missing r")
  case True
  with assms show ?thesis by (simp add: clean_result)
next
  case False
  let ?D = "drop_duplicates raw"
  from False assms have "apply_rows type_row (map (imputed_row ?D) ?D) = Inl e"
    by (auto simp: clean_result split: sum.splits)
  from apply_rows_error [OF this]
  obtain y where "y \<in> set (map (imputed_row ?D) ?D)" "type_row y = Inl e"
    by blast
  then obtain x where x: "x \<in> set raw" "type_row (imputed_row ?D x) = Inl e"
    by (auto simp: set_drop_duplicates)
  then have "\<not> (\<exists>t. type_row (imputed_row ?D x) = Inr t)" by simp
  then have "raw_OrderDate x = BadDateText"
    by (simp add: type_row_imputed)
  with x type_row_error [OF x(2)] show ?thesis by blast
qed

lemma cleaned_row_origin:
  assumes "clean_ecommerce_data now raw = Inr out" and "r \<in> set out"
  shows "\<exists>x\<in>set raw. \<exists>t. type_row (imputed_row (drop_duplicates raw) x) = Inr t
           \<and> r = derive now t \<and> valid_row r"
proof -
  let ?D = "drop_duplicates raw"
  from assms(1) obtain typed
    where typed: "apply_rows type_row (map (imputed_row ?D) ?D) = Inr typed"
      and out: "out = remove_outliers (filter valid_row (map (derive now) typed))"
    by (auto simp: clean_result split: if_splits sum.splits)
  from assms(2) have "r \<in> set (filter valid_row (map (derive now) typed))"
    unfolding out using set_remove_outliers by blast
  then obtain t where t: "t \<in> set typed" "r = derive now t" "valid_row r"
    by auto
  from typed have "list_all2 (\<lambda>y t. type_row y = Inr t) (map (imputed_row ?D) ?D) typed"
    by (simp add: apply_rows_Inr)
  from list_all2_right [OF this t(1)] obtain x where "x \<in> set raw"
    "type_row (imputed_row ?D x) = Inr t"
    by (auto simp: set_drop_duplicates)
  with t show ?thesis by blast
qed

subsection \<open>Evaluating the outlier test\<close>

text \<open>A price lies outside \<open>mean \<plusminus> 3 * std\<close> exactly when its squared distance from the
  mean exceeds nine times the variance; this form has no square root and evaluates.\<close>

lemma outside_iff:
  assumes "0 \<le> V"
  shows "(p > m + 3 * sqrt V \<or> p < m - 3 * sqrt V) \<longleftrightarrow> 9 * V < (p - m)\<^sup>2"
proof -
  have "(p > m + 3 * sqrt V \<or> p < m - 3 * sqrt V) \<longleftrightarrow> \<bar>p - m\<bar> > 3 * sqrt V"
    by linarith
  also have "\<dots> \<longleftrightarrow> sqrt (9 * V) < sqrt ((p - m)\<^sup>2)"
    by (simp add: real_sqrt_mult)
  also have "\<dots> \<longleftrightarrow> 9 * V < (p - m)\<^sup>2"
    by (rule real_sqrt_less_iff)
  finally show ?thesis .
qed

lemma is_outlier_code [code]:
  "is_outlier df category r \<longleftrightarrow>
     Category r = category \<and>
     (case Price r of None \<Rightarrow> False
      | Some p \<Rightarrow>
          (let vs = dropna (map Price (filter (\<lambda>r. Category r = category) df));
               n = length vs
           in 2 \<le> n \<and>
              (let m = sum_list vs / real n
               in 9 * (sum_list (map (\<lambda>v. (v - m)\<^sup>2) vs) / real (n - 1)) < (p - m)\<^sup>2)))"
proof (cases "Price r")
  case None
  then show ?thesis by (simp add: is_outlier_def fgt_def flt_def)
next
  case (Some p)
  let ?vs = "dropna (map Price (filter (\<lambda>r. Category r = category) df))"
  show ?thesis
  proof (cases "2 \<le> length ?vs")
    case False
    then show ?thesis
      by (simp add: is_outlier_def upper_limit_def lower_limit_def nanstd_def nanmean_def
          fgt_def flt_def fadd_def fsub_def fmul_def Let_def Some)
  next
    case True
    let ?m = "sum_list ?vs / real (length ?vs)"
    let ?V = "sum_list (map (\<lambda>v. (v - ?m)\<^sup>2) ?vs) / real (length ?vs - 1)"
    have V: "0 \<le> ?V"
      by (intro divide_nonneg_nonneg sum_list_nonneg) auto
    have ne: "?vs \<noteq> []" using True by auto
    have L: "is_outlier df category r \<longleftrightarrow>
        Category r = category \<and> (p > ?m + 3 * sqrt ?V \<or> p < ?m - 3 * sqrt ?V)"
      using True ne
      by (simp add: is_outlier_def upper_limit_def lower_limit_def nanstd_def nanmean_def
          fgt_def flt_def fadd_def fsub_def fmul_def Let_def Some)
    have R: "(Category r = category \<and>
     (case Price r of None \<Rightarrow> False
      | Some p \<Rightarrow>
          (let vs = dropna (map Price (filter (\<lambda>r. Category r = category) df));
               n = length vs
           in 2 \<le> n \<and>
              (let m = sum_list vs / real n
               in 9 * (sum_list (map (\<lambda>v. (v - m)\<^sup>2) vs) / real (n - 1)) < (p - m)\<^sup>2))))
       \<longleftrightarrow> Category r = category \<and> 9 * ?V < (p - ?m)\<^sup>2"
      using True by (simp add: Some Let_def)
    show ?thesis
      unfolding L R outside_iff [OF V] ..
  qed
qed


section \<open>Properties of the cleaning stage\<close>

subsection \<open>The stage on the example lines\<close>

lemma clean_books_line: "clean_ecommerce_data example_now [books_line] = Inr [books_clean]"
  by code_simp

lemma clean_fraction_line:
  "clean_ecommerce_data example_now [fraction_line] = Inr [fraction_clean]"
  by code_simp

lemma clean_two_lines:
  "clean_ecommerce_data example_now [books_line, fraction_line] = Inr [books_clean, fraction_clean]"
  by code_simp

lemma clean_gadgets_line:
  "clean_ecommerce_data example_now [books_line\<lparr>raw_Category := Some ''Gadgets''\<rparr>]
     = Inr [gadgets_clean]"
  by code_simp

lemma clean_uncategorised_line:
  "clean_ecommerce_data example_now [books_line, uncategorised_line] = Inl KeyError"
  by code_simp

lemma clean_bad_date:
  "clean_ecommerce_data example_now [books_line\<lparr>raw_OrderDate := BadDateText\<rparr>] = Inl ValueError"
  by code_simp

subsection \<open>Whole and fractional quantities\<close>

lemma toward_zero_int: "toward_zero (real_of_int q) = q"
  by (simp add: toward_zero_def)

lemma toward_zero_whole: "real_of_int (toward_zero x) = x \<longleftrightarrow> x \<in> \<int>"
  by (auto simp: toward_zero_def Ints_def)

lemma toward_zero_positive: "0 < toward_zero x \<Longrightarrow> 0 < x"
  by (auto simp: toward_zero_def split: if_splits)

text \<open>
  Claim C1.  The claim asks that the revenue of every retained row be its price times its
  quantity.  The stage computes the revenue from the quantity as read and only then
  coerces the quantity to an integer, so a line with the price 10 and the quantity 2.5 is
  retained with the revenue 25 and the quantity 2: the revenue of the retained row is not
  its price times its quantity.
\<close>

theorem fractional_quantity_revenue:
  "clean_ecommerce_data example_now [fraction_line] = Inr [fraction_clean]
   \<and> Price fraction_clean = Some 10 \<and> Quantity fraction_clean = Some 2
   \<and> Revenue fraction_clean = Some 25
   \<and> Revenue fraction_clean \<noteq> Some (10 * real_of_int 2)"
  using clean_fraction_line by (simp add: fraction_clean_def books_clean_def)

text \<open>
  What holds of every input.  The stage returns a table exactly when no line lacks both
  its price and its category and every date parses.  Every row of the returned table
  comes from a line of the input; its price is present and positive; its quantity is
  present and positive and is the quantity read (1 for a missing one) cut to a whole
  number; its revenue is present and positive and is the price times the quantity read;
  its region is present.  The revenue is the price times the quantity of the row exactly
  when the quantity read is whole.
\<close>

lemma cleaned_rows_shape:
  "((\<exists>out. clean_ecommerce_data now raw = Inr out) \<longleftrightarrow> accepted raw)
   \<and> (\<forall>out. clean_ecommerce_data now raw = Inr out \<longrightarrow>
        (\<forall>r\<in>set out. \<exists>y\<in>set raw. \<exists>p q x.
            x = (case raw_Quantity y of None \<Rightarrow> 1 | Some v \<Rightarrow> v)
          \<and> Price r = Some p \<and> 0 < p
          \<and> Quantity r = Some q \<and> 0 < q \<and> q = toward_zero x
          \<and> Revenue r = Some (p * x) \<and> 0 < p * x
          \<and> Region r \<noteq> None
          \<and> (Revenue r = Some (p * real_of_int q) \<longleftrightarrow> x \<in> \<int>)))"
proof (intro conjI allI impI ballI)
  show "(\<exists>out. clean_ecommerce_data now raw = Inr out) \<longleftrightarrow> accepted raw"
    by (rule clean_returns_iff)
next
  fix out r
  assume out: "clean_ecommerce_data now raw = Inr out" and r: "r \<in> set out"
  let ?D = "drop_duplicates raw"
  from cleaned_row_origin [OF out r] obtain y t
    where y: "y \<in> set raw" and t: "type_row (imputed_row ?D y) = Inr t"
      and d: "r = derive now t" and v: "valid_row r"
    by blast
  let ?x = "case raw_Quantity y of None \<Rightarrow> 1 | Some v \<Rightarrow> v"
  have qy: "raw_Quantity (imputed_row ?D y) = Some ?x"
    by (simp add: imputed_row_def Let_def)
  from type_row_fields(5) [OF t] qy have q: "Quantity t = Some (toward_zero ?x)"
    by simp
  from v obtain p where p: "Price r = Some p" "0 < p"
    by (auto simp: valid_row_def fgt_def split: option.splits)
  then have "raw_Price (imputed_row ?D y) = Some p"
    using type_row_fields(1) [OF t] by (simp add: d derive_def)
  then have "raw_Revenue (imputed_row ?D y) = Some (p * ?x)"
    by (auto simp: imputed_row_def Let_def split: option.splits)
  then have rev: "Revenue r = Some (p * ?x)"
    using type_row_fields(2) [OF t] by (simp add: d derive_def)
  from v q have pos: "0 < toward_zero ?x"
    by (simp add: valid_row_def d derive_def)
  from v rev have rpos: "0 < p * ?x"
    by (simp add: valid_row_def fgt_def)
  have reg: "Region r \<noteq> None"
    using type_row_fields(4) [OF t] by (simp add: d derive_def)
  have "Revenue r = Some (p * real_of_int (toward_zero ?x)) \<longleftrightarrow> ?x \<in> \<int>"
    using p(2) toward_zero_whole [of ?x] by (auto simp: rev)
  with y p q rev pos rpos reg
  show "\<exists>y\<in>set raw. \<exists>p q x.
            x = (case raw_Quantity y of None \<Rightarrow> 1 | Some v \<Rightarrow> v)
          \<and> Price r = Some p \<and> 0 < p
          \<and> Quantity r = Some q \<and> 0 < q \<and> q = toward_zero x
          \<and> Revenue r = Some (p * x) \<and> 0 < p * x
          \<and> Region r \<noteq> None
          \<and> (Revenue r = Some (p * real_of_int q) \<longleftrightarrow> x \<in> \<int>)"
    by (auto simp: d derive_def)
qed

subsection \<open>Imputation\<close>

text \<open>
  Imputation on a table raises \<open>KeyError\<close> when a row lacks both its price and its
  category, and otherwise replaces every row by the imputed row (lemma
  \<open>handle_missing_rows\<close>): a missing price by the median of the prices present in the
  row's category, a missing quantity by 1, a missing region by \<open>Unknown\<close>, and the
  revenue of every row, imputed or not, by the price times the quantity.
\<close>

lemma imputed_missing_example:
  "map (imputed_row missing_example) missing_example =
     [books_line\<lparr>raw_Revenue := Some 20\<rparr>,
      books_line\<lparr>raw_OrderID := Some ''O2'', raw_Quantity := Some 1, raw_Price := Some 20,
        raw_Region := Some ''Unknown'', raw_Revenue := Some 20\<rparr>,
      books_line\<lparr>raw_OrderID := Some ''O3'', raw_Quantity := Some 1, raw_Price := Some 30,
        raw_Revenue := Some 30\<rparr>]"
  by code_simp

lemma missing_example_categorised: "\<not> (\<exists>r\<in>set missing_example. both_missing r)"
  by (simp add: missing_example_def both_missing_def books_line_def)

lemma handle_missing_example:
  "handle_missing missing_example =
     Inr [books_line\<lparr>raw_Revenue := Some 20\<rparr>,
      books_line\<lparr>raw_OrderID := Some ''O2'', raw_Quantity := Some 1, raw_Price := Some 20,
        raw_Region := Some ''Unknown'', raw_Revenue := Some 20\<rparr>,
      books_line\<lparr>raw_OrderID := Some ''O3'', raw_Quantity := Some 1, raw_Price := Some 30,
        raw_Revenue := Some 30\<rparr>]"
  using missing_example_categorised
  by (simp only: handle_missing_rows imputed_missing_example if_False)

text \<open>
  Claim C7.  The claim asks that each missing price be filled from the rows of the same
  category.  For a line that lacks its price and its category the lookup of the median
  by the category raises \<open>KeyError\<close>: imputation fills nothing and the stage returns no
  table.
\<close>

theorem uncategorised_price_raises:
  "raw_Price uncategorised_line = None \<and> raw_Category uncategorised_line = None
   \<and> handle_missing [books_line, uncategorised_line] = Inl KeyError
   \<and> clean_ecommerce_data example_now [books_line, uncategorised_line] = Inl KeyError"
  by code_simp

subsection \<open>A category whose prices are all missing\<close>

lemma handle_missing_Inr:
  "handle_missing df = Inr df' \<Longrightarrow> df' = map (imputed_row df) df"
  by (auto simp: handle_missing_rows split: if_splits)

lemma convert_types_Inr:
  assumes "convert_types df = Inr typed"
  shows "length typed = length df"
    and "i < length df \<Longrightarrow> type_row (df ! i) = Inr (typed ! i)"
proof -
  from assms have a: "list_all2 (\<lambda>y t. type_row y = Inr t) df typed"
    by (simp add: convert_types_rows apply_rows_Inr)
  then show "length typed = length df"
    by (simp add: list_all2_lengthD)
  show "type_row (df ! i) = Inr (typed ! i)" if "i < length df"
    using a that by (rule list_all2_nthD)
qed

lemma clean_Inr:
  assumes "clean_ecommerce_data now raw = Inr out"
  shows "\<exists>df typed. handle_missing (drop_duplicates raw) = Inr df
           \<and> convert_types df = Inr typed
           \<and> out = remove_outliers (filter valid_row (map (derive now) typed))"
  using assms by (auto simp: clean_ecommerce_data_def split: sum.splits)

lemma invalid_without_price: "Price t = None \<Longrightarrow> \<not> valid_row (derive now t)"
  by (simp add: valid_row_def derive_def fgt_def)

text \<open>
  Claim C10.  Let every line of the category \<open>c\<close> lack its price when imputation
  starts.  Then the median of the prices of \<open>c\<close> is undefined (NaN).  When imputation
  returns, it has kept every row and its category, and the rows of \<open>c\<close> still lack
  their price and lack their recomputed revenue.  When the type conversions return,
  those rows fail the positivity test.  When the stage returns, no row of its table
  comes from a row of \<open>c\<close>, every row of its table passes the positivity test, and
  \<open>c\<close> is not a category of its table (unless \<open>c\<close> is the text \<open>nan\<close>, which the
  conversion to text also gives to the rows without a category).  No error is raised on
  account of the missing prices: the stage returns exactly when no line lacks both its
  price and its category and every date parses.
\<close>

theorem missing_category_dropped:
  assumes missing: "\<forall>x\<in>set (drop_duplicates raw).
                     raw_Category x = Some c \<longrightarrow> raw_Price x = None"
  shows "nanmedian (map raw_Price
            (filter (\<lambda>x. raw_Category x = Some c) (drop_duplicates raw))) = None
   \<and> (\<forall>df. handle_missing (drop_duplicates raw) = Inr df \<longrightarrow>
          length df = length (drop_duplicates raw)
        \<and> (\<forall>i<length df. raw_Category (df ! i) = raw_Category (drop_duplicates raw ! i))
        \<and> (\<forall>y\<in>set df. raw_Category y = Some c \<longrightarrow>
              raw_Price y = None \<and> raw_Revenue y = None)
        \<and> (\<forall>typed. convert_types df = Inr typed \<longrightarrow>
              length typed = length df
            \<and> (\<forall>i<length df. raw_Category (df ! i) = Some c \<longrightarrow>
                  Price (typed ! i) = None \<and> Revenue (typed ! i) = None
                \<and> \<not> valid_row (derive now (typed ! i)))
            \<and> (\<forall>out. clean_ecommerce_data now raw = Inr out \<longrightarrow>
                  out = remove_outliers (filter valid_row (map (derive now) typed))
                \<and> (\<forall>r\<in>set out. \<exists>i<length df.
                       r = derive now (typed ! i) \<and> raw_Category (df ! i) \<noteq> Some c)
                \<and> (\<forall>r\<in>set out. valid_row r)
                \<and> (c \<noteq> ''nan'' \<longrightarrow> c \<notin> Category ` set out))))
   \<and> ((\<exists>out. clean_ecommerce_data now raw = Inr out) \<longleftrightarrow> accepted raw)"
proof -
  let ?D = "drop_duplicates raw"
  from missing have all: "\<forall>x\<in>set raw. raw_Category x = Some c \<longrightarrow> raw_Price x = None"
    by (simp add: set_drop_duplicates)
  have "set (dropna (map raw_Price (filter (\<lambda>x. raw_Category x = Some c) ?D))) = {}"
    using all by (auto simp: set_dropna set_drop_duplicates)
  then have none: "dropna (map raw_Price (filter (\<lambda>x. raw_Category x = Some c) ?D)) = []"
    by simp
  then have median:
    "nanmedian (map raw_Price (filter (\<lambda>x. raw_Category x = Some c) ?D)) = None"
    by (simp add: nanmedian_def)
  have returns: "(\<exists>out. clean_ecommerce_data now raw = Inr out) \<longleftrightarrow> accepted raw"
    by (rule clean_returns_iff)
  have body: "length df = length ?D
        \<and> (\<forall>i<length df. raw_Category (df ! i) = raw_Category (?D ! i))
        \<and> (\<forall>y\<in>set df. raw_Category y = Some c \<longrightarrow>
              raw_Price y = None \<and> raw_Revenue y = None)
        \<and> (\<forall>typed. convert_types df = Inr typed \<longrightarrow>
              length typed = length df
            \<and> (\<forall>i<length df. raw_Category (df ! i) = Some c \<longrightarrow>
                  Price (typed ! i) = None \<and> Revenue (typed ! i) = None
                \<and> \<not> valid_row (derive now (typed ! i)))
            \<and> (\<forall>out. clean_ecommerce_data now raw = Inr out \<longrightarrow>
                  out = remove_outliers (filter valid_row (map (derive now) typed))
                \<and> (\<forall>r\<in>set out. \<exists>i<length df.
                       r = derive now (typed ! i) \<and> raw_Category (df ! i) \<noteq> Some c)
                \<and> (\<forall>r\<in>set out. valid_row r)
                \<and> (c \<noteq> ''nan'' \<longrightarrow> c \<notin> Category ` set out)))"
    if hm: "handle_missing ?D = Inr df" for df
  proof -
    from hm have df: "df = map (imputed_row ?D) ?D"
      by (rule handle_missing_Inr)
    have len0: "length df = length ?D"
      by (simp add: df)
    have cat: "\<forall>i<length df. raw_Category (df ! i) = raw_Category (?D ! i)"
      by (simp add: df imputed_row_def Let_def)
    have miss: "\<forall>y\<in>set df. raw_Category y = Some c \<longrightarrow>
        raw_Price y = None \<and> raw_Revenue y = None"
    proof (intro ballI impI)
      fix y assume "y \<in> set df" and c: "raw_Category y = Some c"
      then obtain x where x: "x \<in> set raw" "y = imputed_row ?D x"
        by (auto simp: df set_drop_duplicates)
      with c have cx: "raw_Category x = Some c"
        by (simp add: imputed_row_def Let_def)
      with all x have "raw_Price x = None" by blast
      then show "raw_Price y = None \<and> raw_Revenue y = None"
        by (simp add: x(2) imputed_row_def Let_def cx median)
    qed
    have inner: "length typed = length df
            \<and> (\<forall>i<length df. raw_Category (df ! i) = Some c \<longrightarrow>
                  Price (typed ! i) = None \<and> Revenue (typed ! i) = None
                \<and> \<not> valid_row (derive now (typed ! i)))
            \<and> (\<forall>out. clean_ecommerce_data now raw = Inr out \<longrightarrow>
                  out = remove_outliers (filter valid_row (map (derive now) typed))
                \<and> (\<forall>r\<in>set out. \<exists>i<length df.
                       r = derive now (typed ! i) \<and> raw_Category (df ! i) \<noteq> Some c)
                \<and> (\<forall>r\<in>set out. valid_row r)
                \<and> (c \<noteq> ''nan'' \<longrightarrow> c \<notin> Category ` set out))"
      if typed: "convert_types df = Inr typed" for typed
    proof -
      have len: "length typed = length df"
        using typed by (rule convert_types_Inr)
      have inv: "\<forall>i<length df. raw_Category (df ! i) = Some c \<longrightarrow>
           Price (typed ! i) = None \<and> Revenue (typed ! i) = None
         \<and> \<not> valid_row (derive now (typed ! i))"
      proof (intro allI impI)
        fix i assume i: "i < length df" and c: "raw_Category (df ! i) = Some c"
        from convert_types_Inr(2) [OF typed i]
        have t: "type_row (df ! i) = Inr (typed ! i)" .
        from i have "df ! i \<in> set df" by simp
        with miss c have "raw_Price (df ! i) = None" "raw_Revenue (df ! i) = None"
          by blast+
        with type_row_fields(1,2) [OF t]
        have "Price (typed ! i) = None" "Revenue (typed ! i) = None"
          by simp_all
        then show "Price (typed ! i) = None \<and> Revenue (typed ! i) = None
           \<and> \<not> valid_row (derive now (typed ! i))"
          by (simp add: invalid_without_price)
      qed
      have result: "out = remove_outliers (filter valid_row (map (derive now) typed))
                \<and> (\<forall>r\<in>set out. \<exists>i<length df.
                       r = derive now (typed ! i) \<and> raw_Category (df ! i) \<noteq> Some c)
                \<and> (\<forall>r\<in>set out. valid_row r)
                \<and> (c \<noteq> ''nan'' \<longrightarrow> c \<notin> Category ` set out)"
        if out: "clean_ecommerce_data now raw = Inr out" for out
      proof -
        from clean_Inr [OF out] hm typed
        have eq: "out = remove_outliers (filter valid_row (map (derive now) typed))"
          by auto
        have lineage: "\<forall>r\<in>set out. \<exists>i<length df.
             r = derive now (typed ! i) \<and> raw_Category (df ! i) \<noteq> Some c"
        proof
          fix r assume "r \<in> set out"
          then have "r \<in> set (filter valid_row (map (derive now) typed))"
            unfolding eq using set_remove_outliers by blast
          then obtain i where i: "i < length typed" "r = derive now (typed ! i)" "valid_row r"
            by (auto simp: in_set_conv_nth)
          with inv len have "raw_Category (df ! i) \<noteq> Some c"
            by auto
          with i len
          show "\<exists>i<length df. r = derive now (typed ! i) \<and> raw_Category (df ! i) \<noteq> Some c"
            by auto
        qed
        have valid: "\<forall>r\<in>set out. valid_row r"
        proof
          fix r assume "r \<in> set out"
          then have "r \<in> set (filter valid_row (map (derive now) typed))"
            unfolding eq using set_remove_outliers by blast
          then show "valid_row r" by simp
        qed
        have absent: "c \<notin> Category ` set out" if nan: "c \<noteq> ''nan''"
        proof
          assume "c \<in> Category ` set out"
          then obtain r where r: "r \<in> set out" "Category r = c" by auto
          with lineage obtain i where i: "i < length df" "r = derive now (typed ! i)"
            "raw_Category (df ! i) \<noteq> Some c"
            by blast
          from convert_types_Inr(2) [OF typed i(1)]
          have "Category (typed ! i) = astype_str (raw_Category (df ! i))"
            by (rule type_row_fields)
          with r(2) i(2) have "astype_str (raw_Category (df ! i)) = c"
            by (simp add: derive_def)
          with i(3) nan show False
            by (auto simp: astype_str_def split: option.splits)
        qed
        from eq lineage valid absent show ?thesis
          by blast
      qed
      from len inv result show ?thesis
        by blast
    qed
    from len0 cat miss inner show ?thesis
      by blast
  qed
  from median returns body show ?thesis
    by blast
qed

lemma clean_priceless_books:
  "clean_ecommerce_data example_now
     [books_line\<lparr>raw_Price := None\<rparr>,
      books_line\<lparr>raw_OrderID := Some ''O2'', raw_Price := None\<rparr>,
      books_line\<lparr>raw_Category := Some ''Gadgets''\<rparr>]
   = Inr [gadgets_clean]"
  by code_simp

theorem missing_category_dropped_witness:
  "clean_ecommerce_data example_now
     [books_line\<lparr>raw_Price := None\<rparr>,
      books_line\<lparr>raw_OrderID := Some ''O2'', raw_Price := None\<rparr>,
      books_line\<lparr>raw_Category := Some ''Gadgets''\<rparr>]
     = Inr [gadgets_clean]
   \<and> nanmedian (map raw_Price (filter (\<lambda>x. raw_Category x = Some ''Books'')
        (drop_duplicates
           [books_line\<lparr>raw_Price := None\<rparr>,
            books_line\<lparr>raw_OrderID := Some ''O2'', raw_Price := None\<rparr>,
            books_line\<lparr>raw_Category := Some ''Gadgets''\<rparr>])))
       = None
   \<and> ''Books'' \<notin> Category ` set [gadgets_clean]"
proof -
  let ?raw = "[books_line\<lparr>raw_Price := None\<rparr>,
               books_line\<lparr>raw_OrderID := Some ''O2'', raw_Price := None\<rparr>,
               books_line\<lparr>raw_Category := Some ''Gadgets''\<rparr>]"
  have h: "\<forall>x\<in>set (drop_duplicates ?raw).
             raw_Category x = Some ''Books'' \<longrightarrow> raw_Price x = None"
    by (simp add: set_drop_duplicates books_line_def)
  from clean_Inr [OF clean_priceless_books] obtain df typed
    where hm: "handle_missing (drop_duplicates ?raw) = Inr df"
      and ct: "convert_types df = Inr typed"
    by blast
  note dropped = missing_category_dropped [OF h, of example_now]
  from dropped have median: "nanmedian (map raw_Price
      (filter (\<lambda>x. raw_Category x = Some ''Books'') (drop_duplicates ?raw))) = None"
    by (rule conjunct1)
  from dropped hm ct clean_priceless_books
  have "''Books'' \<noteq> ''nan'' \<longrightarrow> ''Books'' \<notin> Category ` set [gadgets_clean]"
    by blast
  then have "''Books'' \<notin> Category ` set [gadgets_clean]"
    by simp
  with median clean_priceless_books show ?thesis
    by (intro conjI)
qed

section \<open>Properties of the outlier filter\<close>

subsection \<open>The loop as one filter\<close>

text \<open>An iteration removes rows of its own category only, so the rows of every other
  category, and with them its limits, are the same before and after.\<close>

lemma is_outlier_cong:
  assumes "filter (\<lambda>x. Category x = c) df1 = filter (\<lambda>x. Category x = c) df2"
  shows "is_outlier df1 c r = is_outlier df2 c r"
  using assms by (simp add: is_outlier_def upper_limit_def lower_limit_def)

lemma is_outlier_category: "is_outlier df c r \<Longrightarrow> Category r = c"
  by (simp add: is_outlier_def)

lemma outlier_step:
  "(if length (filter (is_outlier df c) df) > 0 then filter (\<lambda>r. \<not> is_outlier df c r) df else df)
     = filter (\<lambda>r. \<not> is_outlier df c r) df"
proof (cases "filter (is_outlier df c) df = []")
  case True
  then have "\<forall>r\<in>set df. \<not> is_outlier df c r"
    by (simp add: filter_empty_conv)
  then have "filter (\<lambda>r. \<not> is_outlier df c r) df = df"
    by simp
  with True show ?thesis by simp
next
  case False
  then show ?thesis by simp
qed

lemma filter_other_category:
  assumes "c' \<noteq> c"
  shows "filter (\<lambda>x. Category x = c') (filter (\<lambda>r. \<not> is_outlier df c r) df)
         = filter (\<lambda>x. Category x = c') df"
proof -
  have "filter (\<lambda>x. Category x = c') (filter (\<lambda>r. \<not> is_outlier df c r) df)
        = filter (\<lambda>x. \<not> is_outlier df c x \<and> Category x = c') df"
    by simp
  also have "\<dots> = filter (\<lambda>x. Category x = c') df"
    using assms by (intro filter_cong) (auto dest: is_outlier_category)
  finally show ?thesis .
qed

lemma outlier_loop_filter:
  "distinct cats \<Longrightarrow>
   outlier_loop cats df =
     filter (\<lambda>r. \<not> (Category r \<in> set cats \<and> is_outlier df (Category r) r)) df"
proof (induction cats arbitrary: df)
  case Nil
  show ?case by simp
next
  case (Cons c cats)
  let ?df' = "filter (\<lambda>r. \<not> is_outlier df c r) df"
  from Cons.prems have c: "c \<notin> set cats" and d: "distinct cats" by auto
  have same: "is_outlier ?df' (Category r) r = is_outlier df (Category r) r"
    if "Category r \<in> set cats" for r
  proof -
    from that c have "Category r \<noteq> c" by auto
    then show ?thesis
      by (intro is_outlier_cong filter_other_category)
  qed
  have "outlier_loop (c # cats) df = outlier_loop cats ?df'"
    by (simp only: outlier_loop.simps Let_def outlier_step)
  also have "\<dots> = filter (\<lambda>r. \<not> (Category r \<in> set cats \<and> is_outlier ?df' (Category r) r)) ?df'"
    by (rule Cons.IH [OF d])
  also have "\<dots> = filter (\<lambda>r. \<not> (Category r \<in> set cats \<and> is_outlier df (Category r) r)) ?df'"
    by (intro filter_cong) (auto simp: same)
  also have "\<dots> = filter (\<lambda>r. \<not> (Category r \<in> set (c # cats) \<and> is_outlier df (Category r) r)) df"
    by (auto intro!: filter_cong dest: is_outlier_category)
  finally show ?case .
qed

lemma remove_outliers_filter:
  "remove_outliers df = filter (\<lambda>r. \<not> is_outlier df (Category r) r) df"
proof -
  have "remove_outliers df =
     filter (\<lambda>r. \<not> (Category r \<in> set (unique (map Category df)) \<and> is_outlier df (Category r) r)) df"
    by (simp add: remove_outliers_def outlier_loop_filter unique_def distinct_drop_duplicates)
  also have "\<dots> = filter (\<lambda>r. \<not> is_outlier df (Category r) r) df"
    by (intro filter_cong) (auto simp: unique_def set_drop_duplicates)
  finally show ?thesis .
qed






lemma cat_price_row: "Category (price_row c p) = c"
  by (simp add: price_row_def)







subsection \<open>Categories with fewer than two rows\<close>

lemma small_category_no_outlier:
  assumes "length (filter (\<lambda>r. Category r = c) df) < 2"
  shows "\<not> is_outlier df c r"
proof -
  have "length (dropna xs) \<le> length xs" for xs :: "real option list"
    by (induction xs rule: dropna.induct) auto
  from this [of "map Price (filter (\<lambda>r. Category r = c) df)"] assms
  have "length (dropna (map Price (filter (\<lambda>r. Category r = c) df))) < 2" by simp
  then have "nanstd (map Price (filter (\<lambda>r. Category r = c) df)) = None"
    by (simp add: nanstd_def Let_def)
  then have "upper_limit df c = None" and "lower_limit df c = None"
    by (simp_all add: upper_limit_def lower_limit_def fadd_def fsub_def fmul_def Let_def
        split: option.splits)
  then show ?thesis
    by (simp add: is_outlier_def fgt_def flt_def split: option.splits)
qed


text \<open>
  Claim C6.  A category with fewer than two rows at the outlier step keeps all its rows:
  its standard deviation is NaN, both comparisons with the limits are false, and the
  step (a total function) returns.
\<close>

theorem small_category_kept:
  assumes "length (filter (\<lambda>r. Category r = c) df) < 2"
  shows "filter (\<lambda>r. Category r = c) (remove_outliers df) = filter (\<lambda>r. Category r = c) df"
proof -
  have "filter (\<lambda>r. Category r = c) (remove_outliers df)
        = filter (\<lambda>r. \<not> is_outlier df (Category r) r \<and> Category r = c) df"
    by (simp add: remove_outliers_filter)
  also have "\<dots> = filter (\<lambda>r. Category r = c) df"
    using small_category_no_outlier [OF assms] by (intro filter_cong) auto
  finally show ?thesis .
qed


lemma toys_rows_example:
  "filter (\<lambda>r. Category r = ''Toys'') outlier_example = [price_row ''Toys'' 5]"
  by code_simp

theorem small_category_kept_witness:
  "length (filter (\<lambda>r. Category r = ''Toys'') outlier_example) = 1 \<and>
   filter (\<lambda>r. Category r = ''Toys'') (remove_outliers outlier_example) = [price_row ''Toys'' 5]"
  using small_category_kept [of "''Toys''" outlier_example]
  by (simp add: toys_rows_example)

section \<open>Categories outside the margin table\<close>

text \<open>A line of the category \<open>Gadgets\<close>, which the margin table does not have, is
  retained, and its margin and its profit are NaN: no error is raised.\<close>

theorem unknown_category_counterexample:
  "clean_ecommerce_data example_now [books_line\<lparr>raw_Category := Some ''Gadgets''\<rparr>]
     = Inr [gadgets_clean]
   \<and> Category gadgets_clean = ''Gadgets''
   \<and> ProfitMargin gadgets_clean = None \<and> Profit gadgets_clean = None"
  using clean_gadgets_line by (simp add: gadgets_clean_def)

text \<open>
  Claim C2, as amended.  The stage raises no error for a category outside the margin
  table: when it raises, some line lacks both its price and its category or has a date
  that does not parse.  Every row of a returned table whose category is not a key of
  the margin table has an undefined (NaN) profit margin and an undefined profit.  And no
  row is dropped for its category: the returned table holds exactly the converted rows
  that pass the positivity test and whose price is inside the limits of their category.
\<close>

theorem unknown_category_margin_undefined:
  "(\<forall>e. clean_ecommerce_data now raw = Inl e \<longrightarrow>
        (\<exists>x\<in>set raw. both_missing x) \<or> (\<exists>x\<in>set raw. raw_OrderDate x = BadDateText))
   \<and> (\<forall>out. clean_ecommerce_data now raw = Inr out \<longrightarrow>
        (\<forall>r\<in>set out. Category r \<notin> fst ` set profit_margins \<longrightarrow>
           ProfitMargin r = None \<and> Profit r = None)
      \<and> (\<exists>df typed. handle_missing (drop_duplicates raw) = Inr df
            \<and> convert_types df = Inr typed
            \<and> out = filter (\<lambda>r. \<not> is_outlier (filter valid_row (map (derive now) typed))
                                      (Category r) r)
                       (filter valid_row (map (derive now) typed))))"
proof (intro conjI allI impI ballI)
  fix e assume "clean_ecommerce_data now raw = Inl e"
  from clean_raises [OF this]
  show "(\<exists>x\<in>set raw. both_missing x) \<or> (\<exists>x\<in>set raw. raw_OrderDate x = BadDateText)"
    by blast
next
  fix out r
  assume out: "clean_ecommerce_data now raw = Inr out" and r: "r \<in> set out"
    and c: "Category r \<notin> fst ` set profit_margins"
  from cleaned_row_origin [OF out r] obtain t where d: "r = derive now t"
    by blast
  from c have "map_of profit_margins (Category r) = None"
    by (simp add: map_of_eq_None_iff)
  then show "ProfitMargin r = None" and "Profit r = None"
    by (simp_all add: d derive_def fmul_def split: option.splits)
next
  fix out
  assume out: "clean_ecommerce_data now raw = Inr out"
  from clean_Inr [OF out] obtain df typed
    where "handle_missing (drop_duplicates raw) = Inr df" "convert_types df = Inr typed"
      "out = remove_outliers (filter valid_row (map (derive now) typed))"
    by blast
  then show "\<exists>df typed. handle_missing (drop_duplicates raw) = Inr df
            \<and> convert_types df = Inr typed
            \<and> out = filter (\<lambda>r. \<not> is_outlier (filter valid_row (map (derive now) typed))
                                      (Category r) r)
                       (filter valid_row (map (derive now) typed))"
    by (auto simp: remove_outliers_filter)
qed

lemma clean_books_and_gadgets:
  "clean_ecommerce_data example_now [books_line, books_line\<lparr>raw_Category := Some ''Gadgets''\<rparr>]
     = Inr [books_clean, gadgets_clean]"
  by code_simp

theorem unknown_category_margin_undefined_witness:
  "clean_ecommerce_data example_now [books_line, books_line\<lparr>raw_Category := Some ''Gadgets''\<rparr>]
     = Inr [books_clean, gadgets_clean]
   \<and> Category gadgets_clean \<notin> fst ` set profit_margins
   \<and> ProfitMargin gadgets_clean = None \<and> Profit gadgets_clean = None
   \<and> ProfitMargin books_clean = Some 0.4"
proof -
  have c: "Category gadgets_clean \<notin> fst ` set profit_margins"
    by (simp add: gadgets_clean_def profit_margins_def)
  have "gadgets_clean \<in> set [books_clean, gadgets_clean]" by simp
  with unknown_category_margin_undefined
         [of example_now "[books_line, books_line\<lparr>raw_Category := Some ''Gadgets''\<rparr>]"]
       clean_books_and_gadgets c
  have "ProfitMargin gadgets_clean = None \<and> Profit gadgets_clean = None"
    by blast
  moreover have "ProfitMargin books_clean = Some 0.4"
    by (simp add: books_clean_def)
  ultimately show ?thesis
    using c clean_books_and_gadgets by blast
qed


section \<open>Running the stage on its own output\<close>

lemma clean_reclean_lines: "clean_ecommerce_data example_now reclean_lines = Inr reclean_out"
  by code_simp

lemma truncate_derive: "typed_row.truncate (derive now t) = t"
  by (simp add: typed_row.truncate_def derive_def)

lemma derive_again: "derive now' t = set_days now' (derive now t)"
  by (simp add: derive_def set_days_def)

lemma type_row_raw_columns:
  assumes "Quantity t = Some q" "Region t = Some g"
  shows "type_row (raw_columns (derive now t)) = Inr t"
  using assms
  by (simp add: type_row_def raw_columns_def derive_def to_datetime_def astype_int_def
      astype_str_def toward_zero_int)

lemma imputed_row_id:
  assumes "raw_Price x = Some p" "raw_Quantity x = Some q" "raw_Region x = Some g"
    and "raw_Revenue x = Some (p * q)"
  shows "imputed_row df x = x"
  using assms by (simp add: imputed_row_def)

lemma is_outlier_columns:
  assumes "map (\<lambda>r. (Category r, Price r)) df1 = map (\<lambda>r. (Category r, Price r)) df2"
    and "Category r1 = Category r2" and "Price r1 = Price r2"
  shows "is_outlier df1 c r1 = is_outlier df2 c r2"
proof -
  have "map Price (filter (\<lambda>r. Category r = c) df) =
        map snd (filter (\<lambda>p. fst p = c) (map (\<lambda>r. (Category r, Price r)) df))"
    for df :: "clean_row list"
    by (induction df) auto
  then have "map Price (filter (\<lambda>r. Category r = c) df1) =
             map Price (filter (\<lambda>r. Category r = c) df2)"
    using assms(1) by simp
  then show ?thesis
    using assms(2,3) by (simp add: is_outlier_def upper_limit_def lower_limit_def Let_def)
qed

lemma valid_row_set_days: "valid_row (set_days now r) = valid_row r"
  by (simp add: valid_row_def set_days_def)

lemma clean_duplicate_example:
  "clean_ecommerce_data example_now duplicate_example = Inr [books_clean, books_clean]"
  by code_simp

lemma reclean_duplicate_example:
  "clean_ecommerce_data example_now (map raw_columns [books_clean, books_clean]) = Inr [books_clean]"
  by code_simp

lemma reclean_fraction:
  "clean_ecommerce_data example_now (map raw_columns [fraction_clean]) = Inr [fraction_recleaned]"
  by code_simp

text \<open>Imputation can make two rows equal after the duplicates were dropped: the second
  run drops one of them, and the row count and the revenue sum change.  And the second
  run computes the revenue of a row from the whole quantity that the first run left,
  so the revenue of a line with a fractional quantity changes: the row count stays and
  the revenue sum changes.\<close>

theorem recleaning_counterexample:
  "clean_ecommerce_data example_now duplicate_example = Inr [books_clean, books_clean]
   \<and> clean_ecommerce_data example_now (map raw_columns [books_clean, books_clean])
       = Inr [books_clean]
   \<and> length [books_clean] < length [books_clean, books_clean]
   \<and> nansum (map Revenue [books_clean]) = 20
   \<and> nansum (map Revenue [books_clean, books_clean]) = 40
   \<and> clean_ecommerce_data example_now [fraction_line] = Inr [fraction_clean]
   \<and> clean_ecommerce_data example_now (map raw_columns [fraction_clean])
       = Inr [fraction_recleaned]
   \<and> nansum (map Revenue [fraction_clean]) = 25
   \<and> nansum (map Revenue [fraction_recleaned]) = 20"
proof -
  have "nansum (map Revenue [books_clean]) = 20"
    and "nansum (map Revenue [books_clean, books_clean]) = 40"
    and "nansum (map Revenue [fraction_clean]) = 25"
    and "nansum (map Revenue [fraction_recleaned]) = 20"
    by (simp_all add: nansum_def books_clean_def fraction_clean_def fraction_recleaned_def)
  with clean_duplicate_example reclean_duplicate_example clean_fraction_line reclean_fraction
  show ?thesis
    by simp
qed


text \<open>Trimming changes the mean and the deviation of a category, so a price that was
  inside the limits of the first run can be outside those of the second.\<close>

lemma filter_retrim_shape:
  "df = replicate 10 a @ [b, c] \<Longrightarrow> P a \<Longrightarrow> \<not> P b \<Longrightarrow> P c \<Longrightarrow>
   filter P df = replicate 10 a @ [c]"
  by simp

lemma filter_retrimmed_shape:
  "df = replicate 10 a @ [c] \<Longrightarrow> P a \<Longrightarrow> \<not> P c \<Longrightarrow> filter P df = replicate 10 a"
  by simp

lemma retrim_first: "remove_outliers retrim_example = retrimmed_once"
proof -
  have "\<not> is_outlier retrim_example ''Books'' (price_row ''Books'' 10)"
    and "is_outlier retrim_example ''Books'' (price_row ''Books'' 1000)"
    and "\<not> is_outlier retrim_example ''Books'' (price_row ''Books'' 11)"
    by code_simp+
  then show ?thesis
    unfolding remove_outliers_filter retrimmed_once_def
    by (intro filter_retrim_shape [OF retrim_example_def]) (simp_all add: cat_price_row)
qed

lemma retrim_second: "remove_outliers retrimmed_once = replicate 10 (price_row ''Books'' 10)"
proof -
  have "\<not> is_outlier retrimmed_once ''Books'' (price_row ''Books'' 10)"
    and "is_outlier retrimmed_once ''Books'' (price_row ''Books'' 11)"
    by code_simp+
  then show ?thesis
    unfolding remove_outliers_filter
    by (intro filter_retrimmed_shape [OF retrimmed_once_def]) (simp_all add: cat_price_row)
qed

text \<open>
  Claim C8, as amended.  When the cleaned table has no two equal rows, none of its
  prices is outside the limits of its category computed on the cleaned table itself, and
  the revenue of each of its rows is the price times the quantity of the row, a second
  run of the stage on it, at any date, returns the same rows up to \<open>DaysSinceOrder\<close>,
  hence the same row count and the same revenue sum.
\<close>

theorem recleaning_stable:
  assumes out: "clean_ecommerce_data now raw = Inr out"
    and dist: "distinct out"
    and noout: "\<forall>r\<in>set out. \<not> is_outlier out (Category r) r"
    and whole: "\<forall>r\<in>set out.
                  Revenue r = fmul (Price r) (map_option real_of_int (Quantity r))"
  shows "clean_ecommerce_data now' (map raw_columns out) = Inr (map (set_days now') out)
       \<and> length (map (set_days now') out) = length out
       \<and> nansum (map Revenue (map (set_days now') out)) = nansum (map Revenue out)"
proof -
  let ?rows = "map raw_columns out"
  let ?out' = "map (set_days now') out"
  have origin: "\<exists>t p q g. r = derive now t \<and> valid_row r \<and> Price t = Some p
      \<and> Quantity t = Some q \<and> Region t = Some g \<and> Revenue t = Some (p * real_of_int q)"
    if "r \<in> set out" for r
  proof -
    from cleaned_row_origin [OF out that] obtain x t
      where t: "type_row (imputed_row (drop_duplicates raw) x) = Inr t"
        and r: "r = derive now t" and v: "valid_row r"
      by blast
    from v obtain p q where pq: "Price r = Some p" "Quantity r = Some q"
      by (auto simp: valid_row_def fgt_def split: option.splits)
    with whole that have "Revenue r = Some (p * real_of_int q)"
      by (simp add: fmul_def)
    with pq have fields: "Price t = Some p" "Quantity t = Some q"
      "Revenue t = Some (p * real_of_int q)"
      by (simp_all add: r derive_def)
    obtain g where "Region t = Some g"
      using type_row_fields(4) [OF t] by simp
    with fields r v show ?thesis
      by blast
  qed
  have fixed: "imputed_row df (raw_columns r) = raw_columns r"
    and typed: "type_row (raw_columns r) = Inr (typed_row.truncate r)"
    and priced: "\<not> both_missing (raw_columns r)"
    and again: "derive now' (typed_row.truncate r) = set_days now' r"
    and valid: "valid_row r"
    if "r \<in> set out" for r df
  proof -
    from origin [OF that] obtain t p q g
      where t: "r = derive now t" "valid_row r" "Price t = Some p" "Quantity t = Some q"
        "Region t = Some g" "Revenue t = Some (p * real_of_int q)"
      by blast
    show "imputed_row df (raw_columns r) = raw_columns r"
      by (rule imputed_row_id [of _ p "real_of_int q" g])
        (simp_all add: t raw_columns_def derive_def)
    show "type_row (raw_columns r) = Inr (typed_row.truncate r)"
      unfolding t(1) truncate_derive using t(4,5) by (rule type_row_raw_columns)
    show "\<not> both_missing (raw_columns r)"
      by (simp add: both_missing_def raw_columns_def t derive_def)
    show "derive now' (typed_row.truncate r) = set_days now' r"
      unfolding t(1) truncate_derive by (rule derive_again)
    show "valid_row r" by (rule t(2))
  qed
  have inj: "inj_on raw_columns (set out)"
  proof (rule inj_onI)
    fix a b assume a: "a \<in> set out" and b: "b \<in> set out"
      and eq: "raw_columns a = raw_columns b"
    from origin [OF a] obtain ta where ta: "a = derive now ta" by blast
    from origin [OF b] obtain tb where tb: "b = derive now tb" by blast
    have "Inr (typed_row.truncate a) = type_row (raw_columns a)"
      using typed [OF a] by (rule sym)
    also have "\<dots> = type_row (raw_columns b)"
      by (simp only: eq)
    also have "\<dots> = Inr (typed_row.truncate b)"
      by (rule typed [OF b])
    finally have "typed_row.truncate a = typed_row.truncate b"
      by (simp only: sum.inject)
    then have "ta = tb"
      by (simp only: ta tb truncate_derive)
    then show "a = b"
      by (simp only: ta tb)
  qed
  with dist have "distinct ?rows"
    by (simp add: distinct_map)
  then have dd: "drop_duplicates ?rows = ?rows"
    by (rule drop_duplicates_distinct)
  have nb: "\<not> (\<exists>x\<in>set ?rows. both_missing x)"
    using priced by auto
  have imputed: "map (imputed_row ?rows) ?rows = ?rows"
    using fixed by (simp add: map_idI)
  have "list_all2 (\<lambda>x t. type_row x = Inr t) ?rows (map typed_row.truncate out)"
    using typed by (simp add: list_all2_map1 list_all2_map2 list_all2_same)
  then have converted: "apply_rows type_row ?rows = Inr (map typed_row.truncate out)"
    by (simp only: apply_rows_Inr)
  have derived: "map (derive now') (map typed_row.truncate out) = ?out'"
    using again by simp
  have valid': "filter valid_row ?out' = ?out'"
    using valid by (auto simp: valid_row_set_days intro!: filter_True)
  have "\<not> is_outlier ?out' (Category r') r'" if "r' \<in> set ?out'" for r'
  proof -
    from that obtain r where r: "r \<in> set out" "r' = set_days now' r" by auto
    have "is_outlier ?out' (Category r') r' = is_outlier out (Category r') r"
      by (rule is_outlier_columns) (simp_all add: r set_days_def comp_def)
    with noout r show ?thesis by (simp add: set_days_def)
  qed
  then have "remove_outliers ?out' = ?out'"
    by (simp add: remove_outliers_filter)
  with nb have "clean_ecommerce_data now' ?rows = Inr ?out'"
    by (simp only: clean_result dd imputed converted derived valid' if_False sum.case)
  moreover have "map Revenue ?out' = map Revenue out"
    by (simp add: set_days_def comp_def)
  then have "nansum (map Revenue ?out') = nansum (map Revenue out)"
    by (simp only:)
  ultimately show ?thesis by (simp only: length_map simp_thms)
qed

lemma reclean_out_distinct: "distinct reclean_out"
  by code_simp

lemma reclean_out_inside: "\<forall>r\<in>set reclean_out. \<not> is_outlier reclean_out (Category r) r"
  by code_simp

lemma reclean_out_revenue:
  "\<forall>r\<in>set reclean_out. Revenue r = fmul (Price r) (map_option real_of_int (Quantity r))"
  by code_simp

lemma reclean_out_days:
  "map DaysSinceOrder (map (set_days example_later) reclean_out) = [27, 27, 27, 27]"
  by code_simp

lemma reclean_out_total: "nansum (map Revenue reclean_out) = 75"
  by code_simp

theorem recleaning_stable_witness:
  "clean_ecommerce_data example_now reclean_lines = Inr reclean_out
   \<and> distinct reclean_out \<and> length reclean_out = 4
   \<and> clean_ecommerce_data example_later (map raw_columns reclean_out)
       = Inr (map (set_days example_later) reclean_out)
   \<and> map DaysSinceOrder (map (set_days example_later) reclean_out) = [27, 27, 27, 27]
   \<and> nansum (map Revenue (map (set_days example_later) reclean_out)) = 75"
proof -
  note stable = recleaning_stable [OF clean_reclean_lines reclean_out_distinct
      reclean_out_inside reclean_out_revenue, of example_later]
  from stable have second:
    "clean_ecommerce_data example_later (map raw_columns reclean_out)
       = Inr (map (set_days example_later) reclean_out)"
    by (rule conjunct1)
  from stable have "nansum (map Revenue (map (set_days example_later) reclean_out))
      = nansum (map Revenue reclean_out)"
    by (rule conjunct2 [THEN conjunct2])
  then have total: "nansum (map Revenue (map (set_days example_later) reclean_out)) = 75"
    by (simp only: reclean_out_total)
  have "length reclean_out = 4"
    by (simp add: reclean_out_def)
  with clean_reclean_lines reclean_out_distinct second reclean_out_days total
  show ?thesis
    by (intro conjI)
qed

section \<open>Properties of the aggregation stage\<close>

subsection \<open>Sums over groups\<close>







subsection \<open>Rounding and sorting\<close>











subsection \<open>Percentages of the rollups\<close>






subsection \<open>Average order value\<close>
















subsection \<open>The example tables\<close>


lemma clean_books_lines: "clean_ecommerce_data example_now books_lines = Inr books_example"
  by code_simp



text \<open>The example of the specification: the book orders of 20 and 30 average 25.\<close>

lemma books_example_value:
  "calculate_average_order_value books_example =
     Inr \<lparr>Overall_AOV = Some 25,
          Category_AOV = [(''Books'', Some 25)],
          Region_AOV = [(''Europe'', Some 25)]\<rparr>"
  by code_simp










subsection \<open>The empty table\<close>

text \<open>The total metrics of the empty table are zero, with the average order value set
  to 0 by the guard on the order count, and the views that aggregate groups are empty.\<close>

lemma rint_zero: "rint 0 = 0"
  by (simp add: rint_def)

lemma empty_total_metrics:
  "calculate_total_sales_revenue [] =
     \<lparr>Total_Revenue = 0, Total_Sales = 0, Total_Profit = 0, Total_Orders = 0,
      Total_Products_Sold = 0, Average_Order_Value = 0\<rparr>"
  by (simp add: calculate_total_sales_revenue_def nansum_def nunique_def round2_def rint_zero)

lemma empty_grouped_views:
  "find_best_selling_products [] n = ([], [])"
  "analyze_high_revenue_categories [] = []"
  "analyze_sales_trends [] = ([], [])"
  "generate_regional_analysis [] = []"
  by (simp_all add: find_best_selling_products_def product_groups_def
      analyze_high_revenue_categories_def analyze_sales_trends_def
      generate_regional_analysis_def groups_def groupby_keys_def)

text \<open>
  Claim C4.  On the empty table the average order value function does not return its
  views: the table has no group, so the frame that comes back from \<open>apply\<close> keeps the
  columns of the input, and the assignment of the two column names raises \<open>ValueError\<close>.
\<close>

theorem empty_table_aov_raises: "calculate_average_order_value [] = Inl ValueError"
  by (simp add: calculate_average_order_value_def apply_reset_rename_def groups_def
      groupby_keys_def)


end
